theory Spec2Isabelle
  imports Complex_Main
begin

section \<open>Data model (prisma/schema.prisma)\<close>

text \<open>
  The rows of the Prisma schema, restricted to the columns the scheduler reads or writes.
  Identifiers are strings (cuid), \<open>Int\<close> columns are integers, \<open>DateTime\<close> columns are
  instants in milliseconds since the epoch (what \<open>Date.getTime()\<close> returns), a nullable
  column is an \<open>option\<close>.
\<close>

type_synonym instant = int

datatype reservation_status = PENDING | CONFIRMED | CANCELLED | COMPLETED | NO_SHOW

record restaurant =
  rst_id :: string
  rst_phone :: string

record table =
  t_id :: string
  t_restaurantId :: string
  t_capacityMin :: int
  t_capacityMax :: int
  t_isJoinable :: bool

record operating_hours =
  oh_restaurantId :: string
  oh_dayOfWeek :: int
  oh_openTime :: "nat list"
  oh_closeTime :: "nat list"

record turn_time_rule =
  ttr_restaurantId :: string
  ttr_partySizeMin :: int
  ttr_partySizeMax :: int
  ttr_turnTimeInMinutes :: int

record reservation =
  res_id :: string
  res_userId :: string
  res_restaurantId :: string
  res_tableId :: "string option"
  res_reservationTime :: instant
  res_partySize :: int
  res_status :: reservation_status
  res_notes :: "string option"
  res_turnTimeUsed :: int

record cancellation_policy =
  cp_restaurantId :: string
  cp_hoursBeforeNoFee :: "int option"
  cp_feePercentage :: "real option"
  cp_fixedFeeAmount :: "real option"
  cp_notes :: "string option"
  cp_allowOnlineCancellation :: bool

record database =
  db_users :: "string list"
  db_restaurants :: "restaurant list"
  db_tables :: "table list"
  db_operatingHours :: "operating_hours list"
  db_turnTimeRules :: "turn_time_rule list"
  db_reservations :: "reservation list"
  db_cancellationPolicies :: "cancellation_policy list"

section \<open>date-fns helpers on instants\<close>

definition addMinutes :: "instant \<Rightarrow> int \<Rightarrow> instant" where
  "addMinutes d amount = d + amount * 60000"

definition isBefore :: "instant \<Rightarrow> instant \<Rightarrow> bool" where
  "isBefore d dateToCompare = (d < dateToCompare)"

definition isAfter :: "instant \<Rightarrow> instant \<Rightarrow> bool" where
  "isAfter d dateToCompare = (d > dateToCompare)"

section \<open>Conflict checker and table matcher (src/lib/availability.ts)\<close>

text \<open>
  \<open>isTableAvailable\<close>: the callback of \<open>reservations.filter\<close> is \<open>conflictsWith\<close>; the table
  is available when the filtered list is empty.
\<close>

definition conflictsWith :: "table \<Rightarrow> instant \<Rightarrow> instant \<Rightarrow> reservation \<Rightarrow> bool" where
  "conflictsWith tbl slotStartTime slotEndTime r =
     (if res_tableId r \<noteq> Some (t_id tbl) then False
      else (let reservationStart = res_reservationTime r;
                reservationEnd = addMinutes reservationStart (res_turnTimeUsed r)
            in isBefore slotStartTime reservationEnd \<and> isAfter slotEndTime reservationStart))"

definition isTableAvailable :: "table \<Rightarrow> reservation list \<Rightarrow> instant \<Rightarrow> instant \<Rightarrow> bool" where
  "isTableAvailable tbl reservations slotStartTime slotEndTime =
     (let conflictingReservations = filter (conflictsWith tbl slotStartTime slotEndTime) reservations
      in length conflictingReservations = 0)"

text \<open>
  \<open>findAvailableTableForSlot\<close> is three loops with early returns. Each loop is a recursive
  function returning \<open>Some id\<close> at the \<open>return\<close> and \<open>None\<close> when the loop runs to its end.
  The nested index loops \<open>for i\<close>, \<open>for j = i + 1\<close> over \<open>joinableTables\<close> recurse over the
  list: \<open>table1\<close> is the head and \<open>table2\<close> ranges over the tables after it.
\<close>

fun idealTableLoop :: "table list \<Rightarrow> reservation list \<Rightarrow> instant \<Rightarrow> instant \<Rightarrow> int \<Rightarrow> string option" where
  "idealTableLoop [] reservations slotStartTime slotEndTime partySize = None"
| "idealTableLoop (tbl # tables) reservations slotStartTime slotEndTime partySize =
     (if t_capacityMin tbl \<le> partySize \<and> t_capacityMax tbl \<ge> partySize
      then (if isTableAvailable tbl reservations slotStartTime slotEndTime
            then Some (t_id tbl)
            else idealTableLoop tables reservations slotStartTime slotEndTime partySize)
      else idealTableLoop tables reservations slotStartTime slotEndTime partySize)"

fun largerTableLoop :: "table list \<Rightarrow> reservation list \<Rightarrow> instant \<Rightarrow> instant \<Rightarrow> int \<Rightarrow> string option" where
  "largerTableLoop [] reservations slotStartTime slotEndTime partySize = None"
| "largerTableLoop (tbl # tables) reservations slotStartTime slotEndTime partySize =
     (if partySize \<le> t_capacityMax tbl
      then (if isTableAvailable tbl reservations slotStartTime slotEndTime
            then Some (t_id tbl)
            else largerTableLoop tables reservations slotStartTime slotEndTime partySize)
      else largerTableLoop tables reservations slotStartTime slotEndTime partySize)"

fun joinInnerLoop :: "table \<Rightarrow> table list \<Rightarrow> reservation list \<Rightarrow> instant \<Rightarrow> instant \<Rightarrow> int \<Rightarrow> string option" where
  "joinInnerLoop table1 [] reservations slotStartTime slotEndTime partySize = None"
| "joinInnerLoop table1 (table2 # rest) reservations slotStartTime slotEndTime partySize =
     (let minCombinedCapacity = t_capacityMin table1 + t_capacityMin table2;
          maxCombinedCapacity = t_capacityMax table1 + t_capacityMax table2
      in if minCombinedCapacity \<le> partySize \<and> partySize \<le> maxCombinedCapacity
         then (let table1Available = isTableAvailable table1 reservations slotStartTime slotEndTime;
                   table2Available = isTableAvailable table2 reservations slotStartTime slotEndTime
               in if table1Available \<and> table2Available
                  then Some (t_id table1)
                  else joinInnerLoop table1 rest reservations slotStartTime slotEndTime partySize)
         else joinInnerLoop table1 rest reservations slotStartTime slotEndTime partySize)"

fun joinOuterLoop :: "table list \<Rightarrow> reservation list \<Rightarrow> instant \<Rightarrow> instant \<Rightarrow> int \<Rightarrow> string option" where
  "joinOuterLoop [] reservations slotStartTime slotEndTime partySize = None"
| "joinOuterLoop (table1 # rest) reservations slotStartTime slotEndTime partySize =
     (case joinInnerLoop table1 rest reservations slotStartTime slotEndTime partySize of
        Some tid \<Rightarrow> Some tid
      | None \<Rightarrow> joinOuterLoop rest reservations slotStartTime slotEndTime partySize)"

definition findAvailableTableForSlot ::
  "table list \<Rightarrow> reservation list \<Rightarrow> instant \<Rightarrow> instant \<Rightarrow> int \<Rightarrow> string option" where
  "findAvailableTableForSlot tables reservations slotStartTime slotEndTime partySize =
     (case idealTableLoop tables reservations slotStartTime slotEndTime partySize of
        Some tid \<Rightarrow> Some tid
      | None \<Rightarrow>
          (case largerTableLoop tables reservations slotStartTime slotEndTime partySize of
             Some tid \<Rightarrow> Some tid
           | None \<Rightarrow>
               (let joinableTables = filter t_isJoinable tables
                in joinOuterLoop joinableTables reservations slotStartTime slotEndTime partySize)))"

subsection \<open>The matcher in the specification's words\<close>

text \<open>
  The pairs \<open>(xs ! i, xs ! j)\<close> with \<open>i < j\<close>, in the order the nested loops visit them.
\<close>

fun orderedPairs :: "'a list \<Rightarrow> ('a \<times> 'a) list" where
  "orderedPairs [] = []"
| "orderedPairs (x # xs) = map (Pair x) xs @ orderedPairs xs"

definition tightFit :: "int \<Rightarrow> table \<Rightarrow> bool" where
  "tightFit p tbl = (t_capacityMin tbl \<le> p \<and> p \<le> t_capacityMax tbl)"

definition pairFit :: "int \<Rightarrow> table \<times> table \<Rightarrow> bool" where
  "pairFit p pr = (t_capacityMin (fst pr) + t_capacityMin (snd pr) \<le> p
                   \<and> p \<le> t_capacityMax (fst pr) + t_capacityMax (snd pr))"

definition specAssignedTable ::
  "table list \<Rightarrow> reservation list \<Rightarrow> instant \<Rightarrow> instant \<Rightarrow> int \<Rightarrow> string option" where
  "specAssignedTable tables reservations s e p =
     (case find (\<lambda>tbl. tightFit p tbl \<and> isTableAvailable tbl reservations s e) tables of
        Some tbl \<Rightarrow> Some (t_id tbl)
      | None \<Rightarrow>
          (case find (\<lambda>tbl. p \<le> t_capacityMax tbl \<and> isTableAvailable tbl reservations s e) tables of
             Some tbl \<Rightarrow> Some (t_id tbl)
           | None \<Rightarrow>
               (case find (\<lambda>pr. pairFit p pr \<and> isTableAvailable (fst pr) reservations s e
                                 \<and> isTableAvailable (snd pr) reservations s e)
                          (orderedPairs (filter t_isJoinable tables)) of
                  Some pr \<Rightarrow> Some (t_id (fst pr))
                | None \<Rightarrow> None)))"

section \<open>Calendar: the JavaScript \<open>Date\<close> values the scheduler builds\<close>

text \<open>
  The process runs in a time zone with a fixed offset of \<open>tz\<close> minutes east of UTC (no
  daylight-saving transition on the day in question). A date string \<open>YYYY-MM-DD\<close> and a time
  string \<open>HH:MM\<close> are given by their numeric fields, that is, by the value of
  \<open>s.split(sep).map(Number)\<close> on digit fields: \<open>[2024, 1, 15]\<close> and \<open>[17, 0]\<close>.

  \<open>daysFromCivil\<close> counts the days from 1970-01-01 to a proleptic Gregorian date; a day
  past the end of its month rolls over into the next month, as the \<open>Date\<close> constructor and
  the engine's date parser do for days up to 31.
\<close>

definition daysFromCivil :: "int \<Rightarrow> int \<Rightarrow> int \<Rightarrow> int" where
  "daysFromCivil y m d =
     (let y' = (if m \<le> 2 then y - 1 else y);
          era = y' div 400;
          yoe = y' - era * 400;
          mp = (if m > 2 then m - 3 else m + 9);
          doy = (153 * mp + 2) div 5 + d - 1;
          doe = yoe * 365 + yoe div 4 - yoe div 100 + doy
      in era * 146097 + doe - 719468)"

text \<open>\<open>new Date(year, monthIndex, day, hours, minutes)\<close>: local time, \<open>monthIndex\<close> from 0.\<close>

definition jsDate :: "int \<Rightarrow> int \<Rightarrow> int \<Rightarrow> int \<Rightarrow> int \<Rightarrow> int \<Rightarrow> instant" where
  "jsDate tz year monthIndex day hours minutes =
     (daysFromCivil year (monthIndex + 1) day * 1440 + hours * 60 + minutes - tz) * 60000"

text \<open>
  \<open>new Date(date).getDay()\<close>: a date-only string is read as midnight UTC, and \<open>getDay\<close>
  gives the weekday in local time (0 is Sunday). \<open>None\<close> is \<open>NaN\<close>, the weekday of an
  invalid date.
\<close>

definition validDateFields :: "nat list \<Rightarrow> bool" where
  "validDateFields date =
     (case date of
        [y, m, d] \<Rightarrow> y \<le> 9999 \<and> 1 \<le> m \<and> m \<le> 12 \<and> 1 \<le> d \<and> d \<le> 31
      | _ \<Rightarrow> False)"

definition getDay :: "int \<Rightarrow> nat list \<Rightarrow> int option" where
  "getDay tz date =
     (if validDateFields date
      then Some (((daysFromCivil (int (date ! 0)) (int (date ! 1)) (int (date ! 2)) * 1440 + tz) div 1440 + 4) mod 7)
      else None)"

text \<open>
  The bounds of the reservation query, \<open>new Date(`${date}T00:00:00`)\<close> and
  \<open>new Date(`${date}T23:59:59`)\<close>, both local time; \<open>None\<close> when the date is invalid.
\<close>

definition queryWindow :: "int \<Rightarrow> nat list \<Rightarrow> (instant \<times> instant) option" where
  "queryWindow tz date =
     (if validDateFields date
      then Some (jsDate tz (int (date ! 0)) (int (date ! 1) - 1) (int (date ! 2)) 0 0,
                 jsDate tz (int (date ! 0)) (int (date ! 1) - 1) (int (date ! 2)) 23 59 + 59000)
      else None)"

text \<open>\<open>format(d, 'HH:mm')\<close>: hours and minutes of the local time, two digits each.\<close>

definition digitChar :: "int \<Rightarrow> char" where
  "digitChar n = ''0123456789'' ! nat n"

definition pad2 :: "int \<Rightarrow> string" where
  "pad2 n = [digitChar (n div 10), digitChar (n mod 10)]"

definition formatHHmm :: "int \<Rightarrow> instant \<Rightarrow> string" where
  "formatHHmm tz d =
     (let localMinutes = (d div 60000 + tz) mod 1440
      in pad2 (localMinutes div 60) @ '':'' @ pad2 (localMinutes mod 60))"

section \<open>Availability calculator (src/lib/availability.ts, \<open>calculateAvailability\<close>)\<close>

record slot =
  sl_time :: string
  sl_available :: bool
  sl_tableId :: "string option"

text \<open>
  The result of \<open>prisma.restaurant.findUnique\<close> with its \<open>include\<close>: the restaurant's
  tables and operating hours, the turn-time rules whose range holds the party size, and the
  PENDING or CONFIRMED reservations whose time lies in the query window of the date.
  Related rows come back in stored order. This is the result of a query the database client
  accepts. When a bound of the window is an invalid \<open>Date\<close> the client raises before
  anything is read; \<open>calculateAvailabilityOutcome\<close> below has that branch, and
  \<open>inQueryWindow\<close>, which matches no reservation there, is then not consulted.
\<close>

record restaurant_included =
  ri_tables :: "table list"
  ri_operatingHours :: "operating_hours list"
  ri_turnTimeRules :: "turn_time_rule list"
  ri_reservations :: "reservation list"

definition activeStatus :: "reservation_status \<Rightarrow> bool" where
  "activeStatus st = (st = PENDING \<or> st = CONFIRMED)"

definition matchingTurnTimeRules :: "database \<Rightarrow> string \<Rightarrow> int \<Rightarrow> turn_time_rule list" where
  "matchingTurnTimeRules db restaurantId partySize =
     filter (\<lambda>rule. ttr_restaurantId rule = restaurantId
                     \<and> ttr_partySizeMin rule \<le> partySize \<and> ttr_partySizeMax rule \<ge> partySize)
            (db_turnTimeRules db)"

definition inQueryWindow :: "int \<Rightarrow> nat list \<Rightarrow> instant \<Rightarrow> bool" where
  "inQueryWindow tz date t =
     (case queryWindow tz date of
        None \<Rightarrow> False
      | Some w \<Rightarrow> fst w \<le> t \<and> t < snd w)"

definition availabilityQuery ::
  "int \<Rightarrow> database \<Rightarrow> string \<Rightarrow> nat list \<Rightarrow> int \<Rightarrow> restaurant_included option" where
  "availabilityQuery tz db restaurantId date partySize =
     (case find (\<lambda>r. rst_id r = restaurantId) (db_restaurants db) of
        None \<Rightarrow> None
      | Some r \<Rightarrow>
          Some \<lparr> ri_tables = filter (\<lambda>t. t_restaurantId t = restaurantId) (db_tables db),
                 ri_operatingHours = filter (\<lambda>oh. oh_restaurantId oh = restaurantId) (db_operatingHours db),
                 ri_turnTimeRules = matchingTurnTimeRules db restaurantId partySize,
                 ri_reservations =
                   filter (\<lambda>res. res_restaurantId res = restaurantId
                                  \<and> inQueryWindow tz date (res_reservationTime res)
                                  \<and> activeStatus (res_status res))
                          (db_reservations db) \<rparr>)"

text \<open>
  \<open>turnTimeRule?.turnTimeInMinutes || 120\<close>: the first matching rule's minutes, and 120 when
  there is no rule or its minutes are 0.
\<close>

definition resolveTurnTime :: "turn_time_rule list \<Rightarrow> int" where
  "resolveTurnTime turnTimeRules =
     (case turnTimeRules of
        [] \<Rightarrow> 120
      | turnTimeRule # _ \<Rightarrow>
          (if ttr_turnTimeInMinutes turnTimeRule = 0 then 120 else ttr_turnTimeInMinutes turnTimeRule))"

definition maxSlots :: nat where
  "maxSlots = 30"

text \<open>
  One pass of the \<open>while\<close> loop builds the slot of \<open>currentTime\<close>;
  \<open>tableId: availableTable || undefined\<close> drops an empty id.
\<close>

definition slotAt :: "int \<Rightarrow> table list \<Rightarrow> reservation list \<Rightarrow> int \<Rightarrow> int \<Rightarrow> instant \<Rightarrow> slot" where
  "slotAt tz tables reservations turnTime partySize currentTime =
     (let timeString = formatHHmm tz currentTime;
          slotEndTime = addMinutes currentTime turnTime;
          availableTable = findAvailableTableForSlot tables reservations currentTime slotEndTime partySize
      in \<lparr> sl_time = timeString,
           sl_available = (availableTable \<noteq> None),
           sl_tableId = (if availableTable = Some [] then None else availableTable) \<rparr>)"

function slotLoop ::
  "int \<Rightarrow> table list \<Rightarrow> reservation list \<Rightarrow> int \<Rightarrow> int \<Rightarrow> instant \<Rightarrow> instant \<Rightarrow> nat \<Rightarrow> slot list" where
  "slotLoop tz tables reservations turnTime partySize lastBookingTime currentTime slotCount =
     (if (isBefore currentTime lastBookingTime \<or> currentTime = lastBookingTime) \<and> slotCount < maxSlots
      then slotAt tz tables reservations turnTime partySize currentTime #
             (if slotCount + 1 \<ge> maxSlots then []
              else slotLoop tz tables reservations turnTime partySize lastBookingTime
                     (addMinutes currentTime 30) (slotCount + 1))
      else [])"
  by pat_completeness auto
termination
  by (relation "measure (\<lambda>(tz, tables, reservations, turnTime, partySize, lastBookingTime, currentTime, slotCount).
                            maxSlots - slotCount)")
     (auto simp: maxSlots_def)

text \<open>
  The body of \<open>calculateAvailability\<close>, early returns in the source's order. The
  \<open>Date\<close> values built from validated fields are never invalid, so the \<open>isNaN\<close> test on
  them is not a branch of the model; the development-only logging is left out.
\<close>

definition calculateAvailability ::
  "int \<Rightarrow> database \<Rightarrow> string \<Rightarrow> nat list \<Rightarrow> int \<Rightarrow> slot list" where
  "calculateAvailability tz db restaurantId date partySize =
     (case availabilityQuery tz db restaurantId date partySize of
        None \<Rightarrow> []
      | Some restaurant \<Rightarrow>
          (let dayOfWeek = getDay tz date in
           case find (\<lambda>oh. Some (oh_dayOfWeek oh) = dayOfWeek) (ri_operatingHours restaurant) of
             None \<Rightarrow> []
           | Some operatingHour \<Rightarrow>
               (let turnTime = resolveTurnTime (ri_turnTimeRules restaurant);
                    dateParts = date;
                    openTimeParts = oh_openTime operatingHour;
                    closeTimeParts = oh_closeTime operatingHour
                in if length dateParts \<noteq> 3 \<or> length openTimeParts \<noteq> 2 \<or> length closeTimeParts \<noteq> 2
                   then []
                   else
                     (let year = int (dateParts ! 0); month = int (dateParts ! 1); day = int (dateParts ! 2);
                          openHour = int (openTimeParts ! 0); openMinute = int (openTimeParts ! 1);
                          closeHour = int (closeTimeParts ! 0); closeMinute = int (closeTimeParts ! 1)
                      in if year < 2020 \<or> year > 2030 \<or> month < 1 \<or> month > 12 \<or> day < 1 \<or> day > 31
                         then []
                         else if openHour < 0 \<or> openHour > 23 \<or> openMinute < 0 \<or> openMinute > 59
                                 \<or> closeHour < 0 \<or> closeHour > 23 \<or> closeMinute < 0 \<or> closeMinute > 59
                         then []
                         else
                           (let openTime = jsDate tz year (month - 1) day openHour openMinute;
                                closeTime = jsDate tz year (month - 1) day closeHour closeMinute;
                                lastBookingTime = addMinutes closeTime (- turnTime)
                            in if isAfter openTime closeTime then []
                               else if isAfter openTime lastBookingTime then []
                               else if turnTime \<le> 0 \<or> turnTime > 480 then []
                               else slotLoop tz (ri_tables restaurant) (ri_reservations restaurant)
                                      turnTime partySize lastBookingTime openTime 0)))))"

subsection \<open>Query arguments the database client rejects\<close>



section \<open>Creating a reservation (\<open>findAvailableTable\<close> and the \<open>POST\<close> handler)\<close>

text \<open>
  \<open>findAvailableTable\<close> reads the restaurant's tables and all its PENDING or CONFIRMED
  reservations (no date filter) and runs the same matcher.
\<close>

definition activeReservations :: "database \<Rightarrow> string \<Rightarrow> reservation list" where
  "activeReservations db restaurantId =
     filter (\<lambda>res. res_restaurantId res = restaurantId \<and> activeStatus (res_status res))
            (db_reservations db)"

definition restaurantTables :: "database \<Rightarrow> string \<Rightarrow> table list" where
  "restaurantTables db restaurantId = filter (\<lambda>t. t_restaurantId t = restaurantId) (db_tables db)"

definition findAvailableTable :: "database \<Rightarrow> string \<Rightarrow> instant \<Rightarrow> int \<Rightarrow> int \<Rightarrow> string option" where
  "findAvailableTable db restaurantId reservationTime partySize turnTime =
     (case find (\<lambda>r. rst_id r = restaurantId) (db_restaurants db) of
        None \<Rightarrow> None
      | Some restaurant \<Rightarrow>
          (let slotEndTime = addMinutes reservationTime turnTime
           in findAvailableTableForSlot (restaurantTables db restaurantId)
                (activeReservations db restaurantId) reservationTime slotEndTime partySize))"

text \<open>
  The request body after \<open>request.json()\<close>. A missing or empty string field is the empty
  string, a missing party size is \<open>0\<close> (both are falsy); \<open>reservationTime\<close> is absent, or a
  value \<open>new Date\<close> cannot parse, or the instant it parses to. The errors are the handler's
  responses, in the order it tests for them.
\<close>

datatype time_arg = Absent | Unparsable | Instant instant

record post_body =
  pb_restaurantId :: string
  pb_reservationTime :: time_arg
  pb_partySize :: int
  pb_notes :: "string option"
  pb_userId :: string
  pb_autoConfirm :: bool

datatype post_error =
    MissingFields "string list"
  | InvalidPartySize
  | InvalidTimeFormat
  | PastTime
  | RestaurantNotFound
  | NoAvailability
  | ReservationConflict
  | InvalidReference

record checked =
  ck_reservationDateTime :: instant
  ck_turnTime :: int
  ck_tableId :: string

text \<open>
  The handler up to and including the availability check: validation, the restaurant query,
  the turn time, \<open>findAvailableTable\<close>. It reads the database and the clock (\<open>now\<close>) and
  writes nothing.
\<close>

definition postCheck :: "instant \<Rightarrow> database \<Rightarrow> post_body \<Rightarrow> post_error + checked" where
  "postCheck now db body =
     (let restaurantId = pb_restaurantId body; reservationTime = pb_reservationTime body;
          partySize = pb_partySize body; userId = pb_userId body;
          missingFields =
            (if restaurantId = [] then [''restaurantId''] else []) @
            (if reservationTime = Absent then [''reservationTime''] else []) @
            (if partySize = 0 then [''partySize''] else []) @
            (if userId = [] then [''userId''] else [])
      in if length missingFields > 0 then Inl (MissingFields missingFields)
         else if partySize < 1 \<or> partySize > 20 then Inl InvalidPartySize
         else
           (case reservationTime of
              Absent \<Rightarrow> Inl InvalidTimeFormat
            | Unparsable \<Rightarrow> Inl InvalidTimeFormat
            | Instant reservationDateTime \<Rightarrow>
                if reservationDateTime < now then Inl PastTime
                else
                  (case find (\<lambda>r. rst_id r = restaurantId) (db_restaurants db) of
                     None \<Rightarrow> Inl RestaurantNotFound
                   | Some restaurant \<Rightarrow>
                       (let turnTime = resolveTurnTime (matchingTurnTimeRules db restaurantId partySize)
                        in case findAvailableTable db restaurantId reservationDateTime partySize turnTime of
                             None \<Rightarrow> Inl NoAvailability
                           | Some tableId \<Rightarrow>
                               if tableId = [] then Inl NoAvailability
                               else Inr \<lparr> ck_reservationDateTime = reservationDateTime,
                                          ck_turnTime = turnTime, ck_tableId = tableId \<rparr>))))"

text \<open>
  \<open>prisma.reservation.create\<close>: the database gives the row the fresh id \<open>newId\<close>; a
  duplicate id violates the primary key (P2002) and a user id that names no user violates
  the foreign key (P2003). The row is appended to the reservations.
\<close>

definition postCreate ::
  "string \<Rightarrow> database \<Rightarrow> post_body \<Rightarrow> checked \<Rightarrow> (post_error + reservation) \<times> database" where
  "postCreate newId db body chk =
     (if newId \<in> set (map res_id (db_reservations db)) then (Inl ReservationConflict, db)
      else if pb_userId body \<notin> set (db_users db) then (Inl InvalidReference, db)
      else
        (let reservation =
               \<lparr> res_id = newId,
                 res_userId = pb_userId body,
                 res_restaurantId = pb_restaurantId body,
                 res_tableId = Some (ck_tableId chk),
                 res_reservationTime = ck_reservationDateTime chk,
                 res_partySize = pb_partySize body,
                 res_status = (if pb_autoConfirm body then CONFIRMED else PENDING),
                 res_notes = pb_notes body,
                 res_turnTimeUsed = ck_turnTime chk \<rparr>
         in (Inr reservation, db \<lparr> db_reservations := db_reservations db @ [reservation] \<rparr>)))"

definition POST ::
  "instant \<Rightarrow> string \<Rightarrow> database \<Rightarrow> post_body \<Rightarrow> (post_error + reservation) \<times> database" where
  "POST now newId db body =
     (case postCheck now db body of
        Inl err \<Rightarrow> (Inl err, db)
      | Inr chk \<Rightarrow> postCreate newId db body chk)"

text \<open>
  The booking form posts \<open>reservationTime: `${date}T${time}:00`\<close> for the slot time it was
  given, and the handler reads it with \<open>new Date\<close>: a date-time string without offset is
  local time. \<open>requestedInstant\<close> is the resulting body field for a date given by its fields
  and a clock string \<open>HH:MM\<close>.
\<close>

definition digitVal :: "char \<Rightarrow> int option" where
  "digitVal c =
     (if c \<in> set ''0123456789''
      then Some (int (length (takeWhile (\<lambda>x. x \<noteq> c) ''0123456789'')))
      else None)"

definition parseClock :: "string \<Rightarrow> (int \<times> int) option" where
  "parseClock s =
     (case s of
        [h1, h2, sep, m1, m2] \<Rightarrow>
          (case (digitVal h1, digitVal h2, digitVal m1, digitVal m2) of
             (Some a, Some b, Some c, Some d) \<Rightarrow>
               if sep = CHR '':'' \<and> a * 10 + b \<le> 23 \<and> c * 10 + d \<le> 59
               then Some (a * 10 + b, c * 10 + d) else None
           | _ \<Rightarrow> None)
      | _ \<Rightarrow> None)"

definition requestedInstant :: "int \<Rightarrow> nat list \<Rightarrow> string \<Rightarrow> time_arg" where
  "requestedInstant tz date time =
     (if validDateFields date
      then (case parseClock time of
              None \<Rightarrow> Unparsable
            | Some hm \<Rightarrow>
                Instant (jsDate tz (int (date ! 0)) (int (date ! 1) - 1) (int (date ! 2)) (fst hm) (snd hm)))
      else Unparsable)"

subsection \<open>Concurrent requests\<close>

text \<open>
  The handler is an \<open>async\<close> function: between its \<open>await\<close>s other requests run. Its
  availability check (\<open>await findAvailableTable\<close>) and its write
  (\<open>await prisma.reservation.create\<close>) are separate database calls with no transaction
  around them, so a request in flight is either not yet checked, or checked and not yet
  written, or finished. A schedule names, step by step, which request advances.
\<close>

datatype call =
    NotChecked post_body
  | CheckedNotWritten post_body checked
  | Finished "post_error + reservation"

definition stepCall :: "instant \<Rightarrow> string \<Rightarrow> database \<Rightarrow> call \<Rightarrow> database \<times> call" where
  "stepCall now newId db c =
     (case c of
        NotChecked body \<Rightarrow>
          (case postCheck now db body of
             Inl err \<Rightarrow> (db, Finished (Inl err))
           | Inr chk \<Rightarrow> (db, CheckedNotWritten body chk))
      | CheckedNotWritten body chk \<Rightarrow>
          (let res = postCreate newId db body chk in (snd res, Finished (fst res)))
      | Finished r \<Rightarrow> (db, Finished r))"

fun runSchedule :: "instant \<Rightarrow> string list \<Rightarrow> nat list \<Rightarrow> database \<times> call list \<Rightarrow> database \<times> call list" where
  "runSchedule now ids [] st = st"
| "runSchedule now ids (i # sched) st =
     (if i < length (snd st) \<and> i < length ids
      then (let r = stepCall now (ids ! i) (fst st) (snd st ! i)
            in runSchedule now ids sched (fst r, (snd st)[i := snd r]))
      else runSchedule now ids sched st)"

text \<open>
  Invariant I1 on the stored reservations: no two PENDING or CONFIRMED reservations of one
  table have overlapping intervals \<open>[reservationTime, reservationTime + turnTimeUsed)\<close>.
\<close>

definition reservationEnd :: "reservation \<Rightarrow> instant" where
  "reservationEnd r = addMinutes (res_reservationTime r) (res_turnTimeUsed r)"

definition doubleBooked :: "reservation \<times> reservation \<Rightarrow> bool" where
  "doubleBooked pr =
     (activeStatus (res_status (fst pr)) \<and> activeStatus (res_status (snd pr))
      \<and> res_tableId (fst pr) \<noteq> None \<and> res_tableId (fst pr) = res_tableId (snd pr)
      \<and> res_reservationTime (fst pr) < reservationEnd (snd pr)
      \<and> res_reservationTime (snd pr) < reservationEnd (fst pr))"

definition noDoubleBooking :: "reservation list \<Rightarrow> bool" where
  "noDoubleBooking rs = (filter doubleBooked (orderedPairs rs) = [])"

section \<open>Cancelling a reservation (the \<open>PATCH\<close> handler)\<close>

datatype patch_error =
    InvalidAction
  | ReservationNotFound
  | AlreadyCancelled
  | AlreadyCompleted
  | OnlineCancellationNotAllowed "string option"
  | TooLateToCancel cancellation_policy

text \<open>
  \<open>if (cancellationPolicy?.hoursBeforeNoFee)\<close> holds when the policy exists and its hours
  are neither null nor 0. \<open>hoursUntilReservation\<close> is the quotient of the millisecond
  difference by 3600000, taken here as the exact quotient. \<open>prisma.reservation.update\<close>
  sets the status of the row with the given id.
\<close>

definition hoursUntilReservation :: "instant \<Rightarrow> reservation \<Rightarrow> real" where
  "hoursUntilReservation now existingReservation =
     real_of_int (res_reservationTime existingReservation - now) / (1000 * 60 * 60)"

definition cancelUpdate :: "database \<Rightarrow> string \<Rightarrow> database" where
  "cancelUpdate db ident =
     db \<lparr> db_reservations :=
            map (\<lambda>r. if res_id r = ident then r \<lparr> res_status := CANCELLED \<rparr> else r)
                (db_reservations db) \<rparr>"

definition PATCH ::
  "instant \<Rightarrow> database \<Rightarrow> string \<Rightarrow> string \<Rightarrow> (patch_error + reservation) \<times> database" where
  "PATCH now db ident action =
     (if action \<noteq> ''cancel'' then (Inl InvalidAction, db)
      else
        (case find (\<lambda>r. res_id r = ident) (db_reservations db) of
           None \<Rightarrow> (Inl ReservationNotFound, db)
         | Some existingReservation \<Rightarrow>
             if res_status existingReservation = CANCELLED then (Inl AlreadyCancelled, db)
             else if res_status existingReservation = COMPLETED then (Inl AlreadyCompleted, db)
             else
               (let cancellationPolicy =
                      find (\<lambda>cp. cp_restaurantId cp = res_restaurantId existingReservation)
                           (db_cancellationPolicies db)
                in if (case cancellationPolicy of
                         None \<Rightarrow> False
                       | Some policy \<Rightarrow> \<not> cp_allowOnlineCancellation policy)
                   then (Inl (OnlineCancellationNotAllowed
                                (map_option rst_phone
                                   (find (\<lambda>r. rst_id r = res_restaurantId existingReservation)
                                         (db_restaurants db)))), db)
                   else
                     (case cancellationPolicy of
                        None \<Rightarrow>
                          (Inr (existingReservation \<lparr> res_status := CANCELLED \<rparr>), cancelUpdate db ident)
                      | Some policy \<Rightarrow>
                          if (case cp_hoursBeforeNoFee policy of
                                None \<Rightarrow> False
                              | Some h \<Rightarrow>
                                  h \<noteq> 0 \<and> hoursUntilReservation now existingReservation < real_of_int h)
                          then (Inl (TooLateToCancel policy), db)
                          else (Inr (existingReservation \<lparr> res_status := CANCELLED \<rparr>),
                                cancelUpdate db ident)))))"

section \<open>Auxiliary definitions for the statements\<close>

text \<open>
  The number of passes the \<open>while\<close> loop makes from \<open>currentTime\<close> with \<open>slotCount\<close> slots
  already built: one per 30-minute step up to \<open>lastBookingTime\<close> inclusive, and never
  more than the cap allows.
\<close>

definition slotCountFor :: "instant \<Rightarrow> instant \<Rightarrow> nat \<Rightarrow> nat" where
  "slotCountFor currentTime lastBookingTime slotCount =
     min (maxSlots - slotCount) (nat ((lastBookingTime - currentTime) div 1800000 + 1))"

text \<open>The clock string \<open>HH:MM\<close> of a minute of the day.\<close>

definition clock :: "int \<Rightarrow> string" where
  "clock n = pad2 (n div 60) @ '':'' @ pad2 (n mod 60)"



section \<open>Example rows\<close>

text \<open>Rows of restaurant \<open>r1\<close> used by the concrete instances below.\<close>

definition exTable :: "string \<Rightarrow> int \<Rightarrow> int \<Rightarrow> bool \<Rightarrow> table" where
  "exTable ident cmin cmax joinable =
     \<lparr> t_id = ident, t_restaurantId = ''r1'', t_capacityMin = cmin, t_capacityMax = cmax,
       t_isJoinable = joinable \<rparr>"

definition exReservation ::
  "string \<Rightarrow> string \<Rightarrow> instant \<Rightarrow> int \<Rightarrow> int \<Rightarrow> reservation_status \<Rightarrow> reservation" where
  "exReservation ident tableId t partySize turn st =
     \<lparr> res_id = ident, res_userId = ''u1'', res_restaurantId = ''r1'', res_tableId = Some tableId,
       res_reservationTime = t, res_partySize = partySize, res_status = st, res_notes = None,
       res_turnTimeUsed = turn \<rparr>"

definition exHours :: "int \<Rightarrow> nat list \<Rightarrow> nat list \<Rightarrow> operating_hours" where
  "exHours dow openTime closeTime =
     \<lparr> oh_restaurantId = ''r1'', oh_dayOfWeek = dow, oh_openTime = openTime, oh_closeTime = closeTime \<rparr>"

definition exRule :: "int \<Rightarrow> int \<Rightarrow> int \<Rightarrow> turn_time_rule" where
  "exRule lo hi minutes =
     \<lparr> ttr_restaurantId = ''r1'', ttr_partySizeMin = lo, ttr_partySizeMax = hi,
       ttr_turnTimeInMinutes = minutes \<rparr>"

definition exPolicy :: "int option \<Rightarrow> bool \<Rightarrow> cancellation_policy" where
  "exPolicy hours allow =
     \<lparr> cp_restaurantId = ''r1'', cp_hoursBeforeNoFee = hours, cp_feePercentage = Some 25,
       cp_fixedFeeAmount = None, cp_notes = None, cp_allowOnlineCancellation = allow \<rparr>"

definition exDb ::
  "operating_hours list \<Rightarrow> turn_time_rule list \<Rightarrow> table list \<Rightarrow> reservation list
   \<Rightarrow> cancellation_policy list \<Rightarrow> database" where
  "exDb hours rules tables reservations policies =
     \<lparr> db_users = [''u1''],
       db_restaurants = [\<lparr> rst_id = ''r1'', rst_phone = ''555-0123'' \<rparr>],
       db_tables = tables,
       db_operatingHours = hours,
       db_turnTimeRules = rules,
       db_reservations = reservations,
       db_cancellationPolicies = policies \<rparr>"

text \<open>
  The scenario of the specification: restaurant \<open>r1\<close> with the one table \<open>table-1\<close> of
  capacity 2 to 4, open 17:00 to 22:00 on weekday \<open>dow\<close>, turn time 90 minutes for parties
  of 1 to 4, and the given reservations.
\<close>

definition scenarioDb :: "int \<Rightarrow> reservation list \<Rightarrow> database" where
  "scenarioDb dow reservations =
     exDb [exHours dow [17, 0] [22, 0]] [exRule 1 4 90] [exTable ''table-1'' 2 4 False]
          reservations []"

definition exBody :: "instant \<Rightarrow> int \<Rightarrow> post_body" where
  "exBody t partySize =
     \<lparr> pb_restaurantId = ''r1'', pb_reservationTime = Instant t, pb_partySize = partySize,
       pb_notes = None, pb_userId = ''u1'', pb_autoConfirm = True \<rparr>"

text \<open>
  A restaurant with two joinable tables of capacity 4 to 6, open 11:00 to 22:00 on weekday
  \<open>dow\<close>, turn time 120 minutes for parties of 1 to 15.
\<close>

definition joinDb :: "int \<Rightarrow> reservation list \<Rightarrow> database" where
  "joinDb dow reservations =
     exDb [exHours dow [11, 0] [22, 0]] [exRule 1 15 120]
          [exTable ''P3'' 4 6 True, exTable ''P4'' 4 6 True] reservations []"

section \<open>Properties of the conflict checker and the matcher\<close>

lemma isTableAvailable_iff:
  "isTableAvailable tbl rs s e \<longleftrightarrow> (\<forall>r \<in> set rs. \<not> conflictsWith tbl s e r)"
  by (simp add: isTableAvailable_def filter_empty_conv)

lemma conflictsWith_iff:
  "conflictsWith tbl s e r \<longleftrightarrow>
     res_tableId r = Some (t_id tbl)
     \<and> s < res_reservationTime r + res_turnTimeUsed r * 60000
     \<and> res_reservationTime r < e"
  by (simp add: conflictsWith_def addMinutes_def isBefore_def isAfter_def Let_def)

lemma idealTableLoop_find:
  "idealTableLoop tables rs s e p =
     map_option t_id (find (\<lambda>tbl. tightFit p tbl \<and> isTableAvailable tbl rs s e) tables)"
  by (induction tables) (auto simp: tightFit_def)

lemma largerTableLoop_find:
  "largerTableLoop tables rs s e p =
     map_option t_id (find (\<lambda>tbl. p \<le> t_capacityMax tbl \<and> isTableAvailable tbl rs s e) tables)"
  by (induction tables) auto

lemma joinInnerLoop_find:
  "joinInnerLoop t1 rest rs s e p =
     map_option (\<lambda>pr. t_id (fst pr))
       (find (\<lambda>pr. pairFit p pr \<and> isTableAvailable (fst pr) rs s e \<and> isTableAvailable (snd pr) rs s e)
             (map (Pair t1) rest))"
  by (induction rest) (auto simp: pairFit_def Let_def)

lemma find_append_option:
  "find P (xs @ ys) = (case find P xs of Some x \<Rightarrow> Some x | None \<Rightarrow> find P ys)"
  by (induction xs) auto

lemma joinOuterLoop_find:
  "joinOuterLoop js rs s e p =
     map_option (\<lambda>pr. t_id (fst pr))
       (find (\<lambda>pr. pairFit p pr \<and> isTableAvailable (fst pr) rs s e \<and> isTableAvailable (snd pr) rs s e)
             (orderedPairs js))"
proof (induction js)
  case Nil
  show ?case by simp
next
  case (Cons t1 rest)
  show ?case
    by (simp add: Cons.IH joinInnerLoop_find find_append_option split: option.split)
qed

text \<open>
  \<open>orderedPairs\<close> lists the pairs as the nested loops visit them: for each \<open>i\<close> in turn, the
  pairs \<open>(xs ! i, xs ! j)\<close> with \<open>j\<close> from \<open>i + 1\<close> to the end.
\<close>

lemma orderedPairs_nth:
  "orderedPairs xs =
     concat (map (\<lambda>i. map (\<lambda>j. (xs ! i, xs ! j)) [Suc i..<length xs]) [0..<length xs])"
proof (induction xs)
  case Nil
  show ?case by simp
next
  case (Cons x xs)
  let ?ys = "x # xs"
  have row0: "map (\<lambda>j. (?ys ! 0, ?ys ! j)) [Suc 0..<length ?ys] = map (Pair x) xs"
  proof -
    have "[Suc 0..<length ?ys] = map Suc [0..<length xs]"
      by (simp add: map_Suc_upt del: upt_Suc)
    then have "map (\<lambda>j. (?ys ! 0, ?ys ! j)) [Suc 0..<length ?ys]
               = map (\<lambda>j. (x, xs ! j)) [0..<length xs]"
      by (simp add: comp_def del: upt_Suc)
    also have "\<dots> = map (Pair x) (map (nth xs) [0..<length xs])"
      by (simp add: comp_def del: upt_Suc)
    also have "\<dots> = map (Pair x) xs"
      by (simp only: map_nth)
    finally show ?thesis .
  qed
  have rest: "concat (map (\<lambda>i. map (\<lambda>j. (?ys ! i, ?ys ! j)) [Suc i..<length ?ys]) [Suc 0..<length ?ys])
              = orderedPairs xs"
  proof -
    have "[Suc 0..<length ?ys] = map Suc [0..<length xs]"
      by (simp add: map_Suc_upt del: upt_Suc)
    then have "concat (map (\<lambda>i. map (\<lambda>j. (?ys ! i, ?ys ! j)) [Suc i..<length ?ys]) [Suc 0..<length ?ys])
          = concat (map (\<lambda>i. map (\<lambda>j. (?ys ! Suc i, ?ys ! j)) [Suc (Suc i)..<Suc (length xs)]) [0..<length xs])"
      by (simp add: comp_def del: upt_Suc)
    also have "\<dots> = concat (map (\<lambda>i. map (\<lambda>j. (xs ! i, xs ! j)) [Suc i..<length xs]) [0..<length xs])"
    proof -
      have "map (\<lambda>j. (?ys ! Suc i, ?ys ! j)) [Suc (Suc i)..<Suc (length xs)]
            = map (\<lambda>j. (xs ! i, xs ! j)) [Suc i..<length xs]" for i
      proof -
        have "[Suc (Suc i)..<Suc (length xs)] = map Suc [Suc i..<length xs]"
          by (simp add: map_Suc_upt del: upt_Suc)
        then show ?thesis by (simp add: comp_def del: upt_Suc)
      qed
      then show ?thesis by (simp only:)
    qed
    also have "\<dots> = orderedPairs xs"
      by (simp only: Cons.IH)
    finally show ?thesis .
  qed
  have "[0..<length ?ys] = 0 # [Suc 0..<length ?ys]"
    by (simp add: upt_conv_Cons del: upt_Suc)
  then have "concat (map (\<lambda>i. map (\<lambda>j. (?ys ! i, ?ys ! j)) [Suc i..<length ?ys]) [0..<length ?ys])
        = map (\<lambda>j. (?ys ! 0, ?ys ! j)) [Suc 0..<length ?ys]
          @ concat (map (\<lambda>i. map (\<lambda>j. (?ys ! i, ?ys ! j)) [Suc i..<length ?ys]) [Suc 0..<length ?ys])"
    by (simp only: list.map concat.simps)
  also have "\<dots> = map (Pair x) xs @ orderedPairs xs"
    by (simp only: row0 rest)
  finally show ?case by simp
qed

section \<open>The slot loop\<close>

declare slotLoop.simps [simp del]

lemma slotLoop_stop:
  "\<not> (currentTime \<le> lastBookingTime \<and> slotCount < maxSlots) \<Longrightarrow>
   slotLoop tz tables rs turn p lastBookingTime currentTime slotCount = []"
  by (subst slotLoop.simps) (auto simp: isBefore_def)

lemma slotLoop_step:
  "currentTime \<le> lastBookingTime \<Longrightarrow> slotCount < maxSlots \<Longrightarrow>
   slotLoop tz tables rs turn p lastBookingTime currentTime slotCount =
     slotAt tz tables rs turn p currentTime #
       (if Suc slotCount \<ge> maxSlots then []
        else slotLoop tz tables rs turn p lastBookingTime (addMinutes currentTime 30) (Suc slotCount))"
  by (subst slotLoop.simps) (auto simp: isBefore_def)

lemma slotCountFor_step:
  assumes "currentTime \<le> lastBookingTime" "slotCount < maxSlots"
  shows "slotCountFor currentTime lastBookingTime slotCount
         = Suc (slotCountFor (addMinutes currentTime 30) lastBookingTime (Suc slotCount))"
proof -
  have q: "(lastBookingTime - currentTime) div 1800000 \<ge> 0"
    using assms(1) by simp
  have "(lastBookingTime - (currentTime + 1800000)) div 1800000
        = (lastBookingTime - currentTime) div 1800000 - 1"
    using div_mult_self1 [of "1800000::int" "lastBookingTime - currentTime" "- 1"]
    by (simp add: algebra_simps)
  then have "nat ((lastBookingTime - currentTime) div 1800000 + 1)
        = Suc (nat ((lastBookingTime - addMinutes currentTime 30) div 1800000 + 1))"
    using q by (simp add: addMinutes_def)
  moreover have "\<And>K. min (maxSlots - slotCount) (Suc K) = Suc (min (maxSlots - Suc slotCount) K)"
    using assms(2) by arith
  ultimately show ?thesis
    by (simp add: slotCountFor_def)
qed

lemma map_upt_Suc_shift: "map f [0..<Suc n] = f 0 # map (\<lambda>k. f (Suc k)) [0..<n]"
  by (simp add: map_upt_Suc del: upt_Suc)

lemma slotLoop_map:
  "slotLoop tz tables rs turn p lastBookingTime currentTime slotCount =
     map (\<lambda>k. slotAt tz tables rs turn p (currentTime + int k * 1800000))
         [0..<slotCountFor currentTime lastBookingTime slotCount]"
proof (induction tz tables rs turn p lastBookingTime currentTime slotCount rule: slotLoop.induct)
  case (1 tz tables rs turn p lastBookingTime currentTime slotCount)
  show ?case
  proof (cases "currentTime \<le> lastBookingTime \<and> slotCount < maxSlots")
    case False
    then have "slotCountFor currentTime lastBookingTime slotCount = 0"
      by (auto simp: slotCountFor_def)
    with False show ?thesis by (simp add: slotLoop_stop)
  next
    case True
    then have le: "currentTime \<le> lastBookingTime" and lt: "slotCount < maxSlots" by auto
    note cnt = slotCountFor_step [OF le lt]
    show ?thesis
    proof (cases "Suc slotCount \<ge> maxSlots")
      case True
      then have "slotCountFor (addMinutes currentTime 30) lastBookingTime (Suc slotCount) = 0"
        by (simp add: slotCountFor_def)
      with True cnt show ?thesis
        by (simp add: slotLoop_step [OF le lt])
    next
      case False
      have cond: "(isBefore currentTime lastBookingTime \<or> currentTime = lastBookingTime) \<and> slotCount < maxSlots"
        using le lt by (auto simp: isBefore_def)
      have ih: "slotLoop tz tables rs turn p lastBookingTime (addMinutes currentTime 30) (slotCount + 1) =
         map (\<lambda>k. slotAt tz tables rs turn p (addMinutes currentTime 30 + int k * 1800000))
             [0..<slotCountFor (addMinutes currentTime 30) lastBookingTime (slotCount + 1)]"
        using "1.IH" [OF cond] False by simp
      have shift: "\<And>k. addMinutes currentTime 30 + int k * 1800000 = currentTime + int (Suc k) * 1800000"
        by (simp add: addMinutes_def algebra_simps)
      show ?thesis
        using False ih
        by (simp add: slotLoop_step [OF le lt] cnt map_upt_Suc_shift shift del: upt_Suc of_nat_Suc)
    qed
  qed
qed


section \<open>The conflict predicate is half-open\<close>

text \<open>
  Claim C4. A slot \<open>[slotStart, slotEnd)\<close> conflicts with a reservation of the table exactly
  when \<open>slotStart < reservationEnd\<close> and \<open>reservationStart < slotEnd\<close>; a table is available
  exactly when no reservation in the list conflicts; and when one interval ends at the
  instant the other begins, no conflict is reported.
\<close>

theorem C4_conflict_half_open:
  "(conflictsWith tbl slotStart slotEnd r \<longleftrightarrow>
      res_tableId r = Some (t_id tbl)
      \<and> slotStart < reservationEnd r \<and> res_reservationTime r < slotEnd)
   \<and> (isTableAvailable tbl rs slotStart slotEnd \<longleftrightarrow>
        (\<forall>x \<in> set rs. \<not> conflictsWith tbl slotStart slotEnd x))
   \<and> (reservationEnd r = slotStart \<or> slotEnd = res_reservationTime r
        \<longrightarrow> \<not> conflictsWith tbl slotStart slotEnd r)"
proof (intro conjI)
  show 1: "conflictsWith tbl slotStart slotEnd r \<longleftrightarrow>
      res_tableId r = Some (t_id tbl)
      \<and> slotStart < reservationEnd r \<and> res_reservationTime r < slotEnd"
    by (simp add: conflictsWith_iff reservationEnd_def addMinutes_def)
  show "isTableAvailable tbl rs slotStart slotEnd \<longleftrightarrow>
        (\<forall>x \<in> set rs. \<not> conflictsWith tbl slotStart slotEnd x)"
    by (rule isTableAvailable_iff)
  show "reservationEnd r = slotStart \<or> slotEnd = res_reservationTime r
        \<longrightarrow> \<not> conflictsWith tbl slotStart slotEnd r"
    using 1 by auto
qed

text \<open>
  A reservation from 19:00 to 20:30 (instants in milliseconds from midnight): the slots
  20:30 to 22:00 and 17:30 to 19:00 touch it and are free, the slot 20:00 to 21:30 is not.
\<close>

theorem C4_witness:
  "isTableAvailable (exTable ''t1'' 2 4 False)
     [exReservation ''x1'' ''t1'' 68400000 2 90 CONFIRMED] 73800000 79200000
   \<and> isTableAvailable (exTable ''t1'' 2 4 False)
     [exReservation ''x1'' ''t1'' 68400000 2 90 CONFIRMED] 63000000 68400000
   \<and> \<not> isTableAvailable (exTable ''t1'' 2 4 False)
     [exReservation ''x1'' ''t1'' 68400000 2 90 CONFIRMED] 72000000 77400000"
proof -
  let ?t = "exTable ''t1'' 2 4 False"
  let ?r = "exReservation ''x1'' ''t1'' 68400000 2 90 CONFIRMED"
  have e: "reservationEnd ?r = 73800000" "res_reservationTime ?r = 68400000"
    "res_tableId ?r = Some (t_id ?t)"
    by (simp_all add: reservationEnd_def addMinutes_def exReservation_def exTable_def)
  have a: "\<not> conflictsWith ?t 73800000 79200000 ?r"
    using C4_conflict_half_open [of ?t 73800000 79200000 ?r "[?r]"] e by simp
  have b: "\<not> conflictsWith ?t 63000000 68400000 ?r"
    using C4_conflict_half_open [of ?t 63000000 68400000 ?r "[?r]"] e by simp
  have c: "conflictsWith ?t 72000000 77400000 ?r"
    using C4_conflict_half_open [of ?t 72000000 77400000 ?r "[?r]"] e by simp
  show ?thesis
    using a b c
      C4_conflict_half_open [of ?t 73800000 79200000 ?r "[?r]"]
      C4_conflict_half_open [of ?t 63000000 68400000 ?r "[?r]"]
      C4_conflict_half_open [of ?t 72000000 77400000 ?r "[?r]"]
    by simp
qed

section \<open>The matcher is the greedy first-fit search\<close>

text \<open>
  Claim C5. The table assigned by \<open>findAvailableTableForSlot\<close> is the one the greedy rule
  names: the first free table, in list order, whose range holds the party size; failing
  that, the first free table with \<open>capacityMax\<close> at least the party size; failing that, the
  first table of the first pair of joinable tables, in the order of the nested loops, whose
  summed minima and maxima bracket the party size and which are both free; and otherwise
  nothing. Both sides are functions of the arguments, so the choice is determined by the
  table order.
\<close>

theorem C5_greedy_selection:
  "findAvailableTableForSlot tables reservations slotStart slotEnd p
   = specAssignedTable tables reservations slotStart slotEnd p"
  by (simp add: findAvailableTableForSlot_def specAssignedTable_def idealTableLoop_find
      largerTableLoop_find joinOuterLoop_find split: option.split)


text \<open>
  Tables \<open>P3\<close> and \<open>P4\<close> (4 to 6, joinable) and \<open>P5\<close> (6 to 10), no reservations: a party of
  7 gets the tight fit \<open>P5\<close>, a party of 3 the first table large enough, \<open>P3\<close>, a party of
  11 the pair \<open>(P3, P4)\<close>, reported as \<open>P3\<close>, and a party of 25 nothing.
\<close>

theorem C5_witness:
  "findAvailableTableForSlot
     [exTable ''P3'' 4 6 True, exTable ''P4'' 4 6 True, exTable ''P5'' 6 10 False] [] 0 7200000 7
   = Some ''P5''
   \<and> findAvailableTableForSlot
     [exTable ''P3'' 4 6 True, exTable ''P4'' 4 6 True, exTable ''P5'' 6 10 False] [] 0 7200000 3
   = Some ''P3''
   \<and> findAvailableTableForSlot
     [exTable ''P3'' 4 6 True, exTable ''P4'' 4 6 True, exTable ''P5'' 6 10 False] [] 0 7200000 11
   = Some ''P3''
   \<and> findAvailableTableForSlot
     [exTable ''P3'' 4 6 True, exTable ''P4'' 4 6 True, exTable ''P5'' 6 10 False] [] 0 7200000 25
   = None"
  unfolding C5_greedy_selection
  by (simp add: specAssignedTable_def tightFit_def pairFit_def exTable_def
      isTableAvailable_def)

section \<open>The slots of an open day\<close>

lemma jsDate_split:
  "jsDate tz y mi d h m = jsDate tz y mi d 0 0 + (h * 60 + m) * 60000"
  by (simp add: jsDate_def algebra_simps)

lemma formatHHmm_minute:
  assumes "0 \<le> a" "a < 1440"
  shows "formatHHmm tz (jsDate tz y mi d 0 0 + a * 60000) = clock a"
proof -
  let ?t = "jsDate tz y mi d 0 0 + a * 60000"
  have "?t = (daysFromCivil y (mi + 1) d * 1440 + a - tz) * 60000"
    by (simp add: jsDate_def algebra_simps)
  then have "?t div 60000 = daysFromCivil y (mi + 1) d * 1440 + a - tz"
    by (simp only: nonzero_mult_div_cancel_right)
  then have e: "?t div 60000 + tz = a + daysFromCivil y (mi + 1) d * 1440"
    by simp
  have "(a + daysFromCivil y (mi + 1) d * 1440) mod 1440 = a"
    using assms by simp
  with e have "(?t div 60000 + tz) mod 1440 = a"
    by (simp only:)
  then show ?thesis
    by (simp only: formatHHmm_def clock_def Let_def)
qed

lemma slotCountFor_minutes:
  "slotCountFor (S + a * 60000) (S + b * 60000) 0 = min 30 (nat ((b - a) div 30 + 1))"
proof -
  have "(S + b * 60000 - (S + a * 60000)) = (b - a) * 60000"
    by (simp add: algebra_simps)
  moreover have "((b - a) * 60000) div 1800000 = (b - a) div 30"
    using div_mult_mult2 [of "60000::int" "b - a" 30] by simp
  ultimately show ?thesis
    by (simp only: slotCountFor_def maxSlots_def)
qed

lemma slot_offset_bound:
  assumes "k < min 30 (nat ((b - a) div 30 + 1))"
  shows "a + 30 * int k \<le> b"
proof -
  have "int k \<le> q" if "k < nat (q + 1)" for q :: int
    using that by linarith
  with assms have "int k \<le> (b - a) div 30" by simp
  then have "30 * int k \<le> 30 * ((b - a) div 30)" by simp
  also have "\<dots> \<le> b - a"
    using mult_div_mod_eq [of 30 "b - a"] pos_mod_sign [of 30 "b - a"] by linarith
  finally show ?thesis by simp
qed

lemma calculateAvailability_path:
  assumes q: "availabilityQuery tz db rid date p = Some r"
    and oh: "find (\<lambda>oh. Some (oh_dayOfWeek oh) = getDay tz date) (ri_operatingHours r) = Some oh"
    and date: "date = [y, m, d]" "2020 \<le> y" "y \<le> 2030" "1 \<le> m" "m \<le> 12" "1 \<le> d" "d \<le> 31"
    and times: "oh_openTime oh = [oH, oM]" "oh_closeTime oh = [cH, cM]"
               "oH \<le> 23" "oM \<le> 59" "cH \<le> 23" "cM \<le> 59"
    and turn: "resolveTurnTime (ri_turnTimeRules r) = turn"
    and openT: "jsDate tz (int y) (int m - 1) (int d) (int oH) (int oM) = openTime"
    and closeT: "jsDate tz (int y) (int m - 1) (int d) (int cH) (int cM) = closeTime"
  shows "calculateAvailability tz db rid date p =
     (if openTime > closeTime then []
      else if openTime > addMinutes closeTime (- turn) then []
      else if turn \<le> 0 \<or> turn > 480 then []
      else slotLoop tz (ri_tables r) (ri_reservations r) turn p (addMinutes closeTime (- turn)) openTime 0)"
  using q oh date times turn openT closeT
  by (simp add: calculateAvailability_def Let_def isAfter_def)

lemma calculateAvailability_open:
  assumes q: "availabilityQuery tz db rid date p = Some r"
    and oh: "find (\<lambda>oh. Some (oh_dayOfWeek oh) = getDay tz date) (ri_operatingHours r) = Some oh"
    and date: "date = [y, m, d]" "2020 \<le> y" "y \<le> 2030" "1 \<le> m" "m \<le> 12" "1 \<le> d" "d \<le> 31"
    and times: "oh_openTime oh = [oH, oM]" "oh_closeTime oh = [cH, cM]"
               "oH \<le> 23" "oM \<le> 59" "cH \<le> 23" "cM \<le> 59"
    and turn: "resolveTurnTime (ri_turnTimeRules r) = turn" "0 < turn" "turn \<le> 480"
    and fits: "int (oH * 60 + oM) \<le> int (cH * 60 + cM) - turn"
  shows "calculateAvailability tz db rid date p =
     map (\<lambda>k. slotAt tz (ri_tables r) (ri_reservations r) turn p
                 (jsDate tz (int y) (int m - 1) (int d) 0 0 + (int (oH * 60 + oM) + 30 * int k) * 60000))
         [0..<min 30 (nat ((int (cH * 60 + cM) - turn - int (oH * 60 + oM)) div 30 + 1))]"
proof -
  let ?S = "jsDate tz (int y) (int m - 1) (int d) 0 0"
  let ?a = "int (oH * 60 + oM)"
  let ?b = "int (cH * 60 + cM) - turn"
  have openT: "jsDate tz (int y) (int m - 1) (int d) (int oH) (int oM) = ?S + ?a * 60000"
    by (subst jsDate_split) simp
  have closeT: "jsDate tz (int y) (int m - 1) (int d) (int cH) (int cM) = ?S + int (cH * 60 + cM) * 60000"
    by (subst jsDate_split) simp
  have lastT: "addMinutes (?S + int (cH * 60 + cM) * 60000) (- turn) = ?S + ?b * 60000"
    by (simp add: addMinutes_def algebra_simps)
  have le1: "\<not> (?S + ?a * 60000 > ?S + int (cH * 60 + cM) * 60000)"
    using fits turn(2) by simp
  have le2: "\<not> (?S + ?a * 60000 > ?S + ?b * 60000)"
    using fits by simp
  have ok: "\<not> (turn \<le> 0 \<or> turn > 480)"
    using turn by simp
  have "calculateAvailability tz db rid date p =
        slotLoop tz (ri_tables r) (ri_reservations r) turn p (?S + ?b * 60000) (?S + ?a * 60000) 0"
    unfolding calculateAvailability_path [OF q oh date times turn(1) openT closeT] lastT
    using le1 le2 ok by (simp only: if_False)
  also have "\<dots> = map (\<lambda>k. slotAt tz (ri_tables r) (ri_reservations r) turn p
                 (?S + ?a * 60000 + int k * 1800000))
         [0..<slotCountFor (?S + ?a * 60000) (?S + ?b * 60000) 0]"
    by (rule slotLoop_map)
  also have "\<dots> = map (\<lambda>k. slotAt tz (ri_tables r) (ri_reservations r) turn p
                 (?S + (?a + 30 * int k) * 60000))
         [0..<min 30 (nat ((?b - ?a) div 30 + 1))]"
  proof -
    have "\<And>k. ?S + ?a * 60000 + int k * 1800000 = ?S + (?a + 30 * int k) * 60000"
      by (simp add: algebra_simps)
    then show ?thesis
      by (simp only: slotCountFor_minutes)
  qed
  finally show ?thesis .
qed

section \<open>Slot enumeration\<close>

lemma sl_time_slotAt: "sl_time (slotAt tz tables rs turn p t) = formatHHmm tz t"
  by (simp add: slotAt_def Let_def)

lemma sl_available_slotAt:
  "sl_available (slotAt tz tables rs turn p t)
   = (findAvailableTableForSlot tables rs t (addMinutes t turn) p \<noteq> None)"
  by (simp add: slotAt_def Let_def)




lemma upt_0_8: "[0..<8] = [0, 1, 2, 3, 4, 5, 6, 7]"
  by (simp add: upt_rec)

text \<open>
  2024-01-15 is a Monday. In a zone west of UTC \<open>new Date('2024-01-15')\<close>, midnight UTC,
  still falls on Sunday, which is the weekday the repository's tests give their operating
  hours for that date.
\<close>

lemma getDay_examples:
  "getDay 0 [2024, 1, 15] = Some 1" "getDay (- 300) [2024, 1, 15] = Some 0"
  by (simp_all add: getDay_def validDateFields_def daysFromCivil_def)

text \<open>
  The safety cap at work: open 00:00 to 23:59 with a turn time of 30 minutes, the loop stops
  after 30 slots, the last one at 14:30, although slots up to 23:29 would fit.
\<close>

lemma slot_cap_example:
  "length (calculateAvailability 0
             (exDb [exHours 1 [0, 0] [23, 59]] [exRule 1 4 30] [exTable ''table-1'' 2 4 False] [] [])
             ''r1'' [2024, 1, 15] 2) = 30
   \<and> sl_time (last (calculateAvailability 0
             (exDb [exHours 1 [0, 0] [23, 59]] [exRule 1 4 30] [exTable ''table-1'' 2 4 False] [] [])
             ''r1'' [2024, 1, 15] 2)) = ''14:30''"
proof -
  let ?db = "exDb [exHours 1 [0, 0] [23, 59]] [exRule 1 4 30] [exTable ''table-1'' 2 4 False] [] []"
  let ?r = "\<lparr> ri_tables = [exTable ''table-1'' 2 4 False],
              ri_operatingHours = [exHours 1 [0, 0] [23, 59]],
              ri_turnTimeRules = [exRule 1 4 30], ri_reservations = [] \<rparr>"
  have q: "availabilityQuery 0 ?db ''r1'' [2024, 1, 15] 2 = Some ?r"
    by (simp add: availabilityQuery_def exDb_def exTable_def exHours_def exRule_def
        matchingTurnTimeRules_def)
  have oh: "find (\<lambda>oh. Some (oh_dayOfWeek oh) = getDay 0 [2024, 1, 15]) (ri_operatingHours ?r)
            = Some (exHours 1 [0, 0] [23, 59])"
    by (simp add: getDay_def validDateFields_def daysFromCivil_def exHours_def)
  have turn: "resolveTurnTime (ri_turnTimeRules ?r) = 30"
    by (simp add: resolveTurnTime_def exRule_def)
  have tm: "oh_openTime (exHours 1 [0, 0] [23, 59]) = [0, 0]"
    "oh_closeTime (exHours 1 [0, 0] [23, 59]) = [23, 59]"
    by (simp_all add: exHours_def)
  note eq = calculateAvailability_open [OF q oh refl _ _ _ _ _ _ tm _ _ _ _ turn, simplified]
  have l: "length (calculateAvailability 0 ?db ''r1'' [2024, 1, 15] 2) = 30"
    using eq by simp
  have "calculateAvailability 0 ?db ''r1'' [2024, 1, 15] 2 \<noteq> []"
    using l by auto
  then have "last (calculateAvailability 0 ?db ''r1'' [2024, 1, 15] 2)
        = calculateAvailability 0 ?db ''r1'' [2024, 1, 15] 2
            ! (length (calculateAvailability 0 ?db ''r1'' [2024, 1, 15] 2) - 1)"
    by (rule last_conv_nth)
  also have "\<dots> = calculateAvailability 0 ?db ''r1'' [2024, 1, 15] 2 ! 29"
    by (simp only: l) simp
  also have "\<dots> = slotAt 0 [exTable ''table-1'' 2 4 False] [] 30 2
                      (jsDate 0 2024 0 15 0 0 + 870 * 60000)"
    using eq by simp
  finally show ?thesis
    using l formatHHmm_minute [of 870 0 2024 0 15]
    by (simp add: sl_time_slotAt clock_def pad2_def digitChar_def)
qed




section \<open>Degraded cases give no slots\<close>



lemma availabilityQuery_fields:
  assumes "availabilityQuery tz db rid date p = Some r"
  shows "ri_tables r = restaurantTables db rid"
    and "ri_operatingHours r = filter (\<lambda>oh. oh_restaurantId oh = rid) (db_operatingHours db)"
    and "ri_turnTimeRules r = matchingTurnTimeRules db rid p"
    and "ri_reservations r = filter (\<lambda>res. res_restaurantId res = rid
                                  \<and> inQueryWindow tz date (res_reservationTime res)
                                  \<and> activeStatus (res_status res)) (db_reservations db)"
  using assms by (auto simp: availabilityQuery_def restaurantTables_def split: option.splits)












section \<open>The booking scenario\<close>


lemma scenario_slot:
  assumes "0 \<le> a" "a < 1440"
  shows "slotAt tz [exTable ''table-1'' 2 4 False]
           [exReservation newId ''table-1'' (jsDate tz y mi d 0 0 + 1140 * 60000) 2 90 CONFIRMED] 90 2
           (jsDate tz y mi d 0 0 + a * 60000)
         = \<lparr> sl_time = clock a, sl_available = (a \<le> 1050 \<or> 1230 \<le> a),
             sl_tableId = (if a \<le> 1050 \<or> 1230 \<le> a then Some ''table-1'' else None) \<rparr>"
proof -
  let ?S = "jsDate tz y mi d 0 0"
  have av: "isTableAvailable (exTable ''table-1'' 2 4 False)
          [exReservation newId ''table-1'' (?S + 1140 * 60000) 2 90 CONFIRMED]
          (?S + a * 60000) (addMinutes (?S + a * 60000) 90) \<longleftrightarrow> (a \<le> 1050 \<or> 1230 \<le> a)"
    by (auto simp: isTableAvailable_def conflictsWith_iff exTable_def exReservation_def addMinutes_def)
  show ?thesis
    using av
    by (simp add: slotAt_def Let_def formatHHmm_minute [OF assms] findAvailableTableForSlot_def)
       (auto simp: exTable_def)
qed

lemma scenario_after_booking:
  assumes date: "2020 \<le> y" "y \<le> 2030" "1 \<le> m" "m \<le> 12" "1 \<le> d" "d \<le> 31"
    and dow: "getDay tz [y, m, d] = Some dow"
    and t19: "t19 = jsDate tz (int y) (int m - 1) (int d) 19 0"
  shows "map (\<lambda>s. (sl_time s, sl_available s))
           (calculateAvailability tz (scenarioDb dow [exReservation newId ''table-1'' t19 2 90 CONFIRMED])
              ''r1'' [y, m, d] 2)
         = [(''17:00'', True), (''17:30'', True), (''18:00'', False), (''18:30'', False),
            (''19:00'', False), (''19:30'', False), (''20:00'', False), (''20:30'', True)]"
proof -
  let ?S = "jsDate tz (int y) (int m - 1) (int d) 0 0"
  let ?res = "exReservation newId ''table-1'' (?S + 1140 * 60000) 2 90 CONFIRMED"
  let ?db = "scenarioDb dow [?res]"
  let ?r = "\<lparr> ri_tables = [exTable ''table-1'' 2 4 False],
              ri_operatingHours = [exHours dow [17, 0] [22, 0]],
              ri_turnTimeRules = [exRule 1 4 90], ri_reservations = [?res] \<rparr>"
  have t: "t19 = ?S + 1140 * 60000"
    unfolding t19 by (subst jsDate_split) simp
  have win: "inQueryWindow tz [y, m, d] (?S + 1140 * 60000)"
    using date
    by (simp add: inQueryWindow_def queryWindow_def validDateFields_def jsDate_def)
  have q: "availabilityQuery tz ?db ''r1'' [y, m, d] 2 = Some ?r"
    using win
    by (simp add: availabilityQuery_def scenarioDb_def exDb_def exTable_def exHours_def exRule_def
        matchingTurnTimeRules_def exReservation_def activeStatus_def)
  have oh: "find (\<lambda>oh. Some (oh_dayOfWeek oh) = getDay tz [y, m, d]) (ri_operatingHours ?r)
            = Some (exHours dow [17, 0] [22, 0])"
    by (simp add: dow exHours_def)
  have turn: "resolveTurnTime (ri_turnTimeRules ?r) = 90"
    by (simp add: resolveTurnTime_def exRule_def)
  have tm: "oh_openTime (exHours dow [17, 0] [22, 0]) = [17, 0]"
    "oh_closeTime (exHours dow [17, 0] [22, 0]) = [22, 0]"
    by (simp_all add: exHours_def)
  have eq: "calculateAvailability tz ?db ''r1'' [y, m, d] 2
        = map (\<lambda>k. slotAt tz [exTable ''table-1'' 2 4 False] [?res] 90 2
                      (?S + (1020 + 30 * int k) * 60000)) [0..<8]"
    using calculateAvailability_open [OF q oh refl date tm _ _ _ _ turn]
    by simp
  note slots = scenario_slot [of 1020, simplified] scenario_slot [of 1050, simplified]
    scenario_slot [of 1080, simplified] scenario_slot [of 1110, simplified]
    scenario_slot [of 1140, simplified] scenario_slot [of 1170, simplified]
    scenario_slot [of 1200, simplified] scenario_slot [of 1230, simplified]
  show ?thesis
    unfolding t eq
    by (simp add: upt_0_8 slots clock_def pad2_def digitChar_def)
qed





section \<open>An unavailable slot cannot be booked\<close>

lemma isTableAvailable_antimono:
  "set rs \<subseteq> set rs' \<Longrightarrow> isTableAvailable tbl rs' s e \<Longrightarrow> isTableAvailable tbl rs s e"
  by (auto simp: isTableAvailable_iff)

lemma findAvailableTableForSlot_None_iff:
  "findAvailableTableForSlot tables rs s e p = None \<longleftrightarrow>
     (\<forall>tbl \<in> set tables. p \<le> t_capacityMax tbl \<longrightarrow> \<not> isTableAvailable tbl rs s e)
     \<and> (\<forall>pr \<in> set (orderedPairs (filter t_isJoinable tables)).
            pairFit p pr \<longrightarrow> \<not> (isTableAvailable (fst pr) rs s e \<and> isTableAvailable (snd pr) rs s e))"
proof -
  have c: "(case a of Some x \<Rightarrow> Some x | None \<Rightarrow> b) = None \<longleftrightarrow> a = None \<and> b = None"
    for a b :: "string option"
    by (cases a) auto
  have "findAvailableTableForSlot tables rs s e p = None \<longleftrightarrow>
        find (\<lambda>tbl. tightFit p tbl \<and> isTableAvailable tbl rs s e) tables = None
        \<and> find (\<lambda>tbl. p \<le> t_capacityMax tbl \<and> isTableAvailable tbl rs s e) tables = None
        \<and> find (\<lambda>pr. pairFit p pr \<and> isTableAvailable (fst pr) rs s e \<and> isTableAvailable (snd pr) rs s e)
               (orderedPairs (filter t_isJoinable tables)) = None"
    by (simp only: findAvailableTableForSlot_def Let_def c idealTableLoop_find
        largerTableLoop_find joinOuterLoop_find map_option_is_None)
  also have "\<dots> \<longleftrightarrow>
     (\<forall>tbl \<in> set tables. p \<le> t_capacityMax tbl \<longrightarrow> \<not> isTableAvailable tbl rs s e)
     \<and> (\<forall>pr \<in> set (orderedPairs (filter t_isJoinable tables)).
            pairFit p pr \<longrightarrow> \<not> (isTableAvailable (fst pr) rs s e \<and> isTableAvailable (snd pr) rs s e))"
    unfolding find_None_iff by (auto simp: tightFit_def)
  finally show ?thesis .
qed

lemma findAvailableTableForSlot_None_mono:
  assumes "set rs \<subseteq> set rs'" "findAvailableTableForSlot tables rs s e p = None"
  shows "findAvailableTableForSlot tables rs' s e p = None"
  using assms(2) isTableAvailable_antimono [OF assms(1)]
  unfolding findAvailableTableForSlot_None_iff by blast

lemma digitVal_all: "\<forall>k \<in> set [0..<10]. digitVal (digitChar (int k)) = Some (int k)"
  by (simp add: upt_rec digitChar_def digitVal_def)

lemma digitVal_digitChar:
  assumes "0 \<le> n" "n < 10"
  shows "digitVal (digitChar n) = Some n"
proof -
  from assms have "nat n \<in> set [0..<10]" by simp
  with digitVal_all have "digitVal (digitChar (int (nat n))) = Some (int (nat n))" by blast
  with assms show ?thesis by simp
qed

lemma parseClock_clock:
  assumes "0 \<le> a" "a < 1440"
  shows "parseClock (clock a) = Some (a div 60, a mod 60)"
proof -
  have h: "0 \<le> a div 60" "a div 60 \<le> 23" using assms by auto
  have m: "0 \<le> a mod 60" "a mod 60 \<le> 59" by auto
  have d: "digitVal (digitChar (n div 10)) = Some (n div 10)"
          "digitVal (digitChar (n mod 10)) = Some (n mod 10)" if "0 \<le> n" "n \<le> 59" for n
    using that by (auto intro!: digitVal_digitChar)
  have h': "a div 60 \<le> 59" using h by simp
  show ?thesis
    using h m
    by (simp add: parseClock_def clock_def pad2_def d [OF h(1) h'] d [OF m])
qed

lemma requestedInstant_clock:
  assumes "validDateFields [y, m, d]" "0 \<le> a" "a < 1440"
  shows "requestedInstant tz [y, m, d] (clock a)
         = Instant (jsDate tz (int y) (int m - 1) (int d) 0 0 + a * 60000)"
proof -
  have "jsDate tz (int y) (int m - 1) (int d) (a div 60) (a mod 60)
        = jsDate tz (int y) (int m - 1) (int d) 0 0 + a * 60000"
    by (subst jsDate_split) simp
  then show ?thesis
    using assms by (simp add: requestedInstant_def parseClock_clock)
qed



lemma list3: "length xs = 3 \<Longrightarrow> \<exists>a b c. xs = [a, b, c]"
  by (cases xs; cases "tl xs"; cases "tl (tl xs)"; cases "tl (tl (tl xs))") auto

lemma list2: "length xs = 2 \<Longrightarrow> \<exists>a b. xs = [a, b]"
  by (cases xs; cases "tl xs"; cases "tl (tl xs)") auto

lemma slot_origin:
  assumes s: "s \<in> set (calculateAvailability tz db rid date p)"
  shows "\<exists>r y m d a. availabilityQuery tz db rid date p = Some r \<and> date = [y, m, d]
           \<and> validDateFields [y, m, d] \<and> 0 \<le> a \<and> a < 1440
           \<and> s = slotAt tz (ri_tables r) (ri_reservations r) (resolveTurnTime (ri_turnTimeRules r)) p
                   (jsDate tz (int y) (int m - 1) (int d) 0 0 + a * 60000)"
proof -
  from s have ne: "calculateAvailability tz db rid date p \<noteq> []" by auto
  then obtain r where q: "availabilityQuery tz db rid date p = Some r"
    by (cases "availabilityQuery tz db rid date p") (auto simp: calculateAvailability_def)
  from ne q obtain oh where
    oh: "find (\<lambda>oh. Some (oh_dayOfWeek oh) = getDay tz date) (ri_operatingHours r) = Some oh"
    by (cases "find (\<lambda>oh. Some (oh_dayOfWeek oh) = getDay tz date) (ri_operatingHours r)")
       (auto simp: calculateAvailability_def Let_def)
  have len: "length date = 3 \<and> length (oh_openTime oh) = 2 \<and> length (oh_closeTime oh) = 2"
    using ne q oh by (auto simp: calculateAvailability_def Let_def split: if_splits)
  then obtain y m d oH oM cH cM where
    d: "date = [y, m, d]" and times: "oh_openTime oh = [oH, oM]" "oh_closeTime oh = [cH, cM]"
    using list3 [of date] list2 [of "oh_openTime oh"] list2 [of "oh_closeTime oh"] by blast
  have rng: "2020 \<le> y" "y \<le> 2030" "1 \<le> m" "m \<le> 12" "1 \<le> d" "d \<le> 31"
    and trng: "oH \<le> 23" "oM \<le> 59" "cH \<le> 23" "cM \<le> 59"
    using ne q oh d times by (auto simp: calculateAvailability_def Let_def split: if_splits)
  let ?turn = "resolveTurnTime (ri_turnTimeRules r)"
  let ?S = "jsDate tz (int y) (int m - 1) (int d) 0 0"
  have openT: "jsDate tz (int y) (int m - 1) (int d) (int oH) (int oM) = ?S + int (oH * 60 + oM) * 60000"
    by (subst jsDate_split) simp
  have closeT: "jsDate tz (int y) (int m - 1) (int d) (int cH) (int cM) = ?S + int (cH * 60 + cM) * 60000"
    by (subst jsDate_split) simp
  note path = calculateAvailability_path [OF q oh d rng times trng refl openT closeT]
  have ok: "\<not> (?S + int (oH * 60 + oM) * 60000 > addMinutes (?S + int (cH * 60 + cM) * 60000) (- ?turn))"
    "0 < ?turn" "?turn \<le> 480"
    using ne unfolding path by (auto split: if_splits)
  then have fits: "int (oH * 60 + oM) \<le> int (cH * 60 + cM) - ?turn"
    by (simp add: addMinutes_def)
  note eq = calculateAvailability_open [OF q oh d rng times trng refl ok(2,3) fits]
  from s obtain k where k: "k < min 30 (nat ((int (cH * 60 + cM) - ?turn - int (oH * 60 + oM)) div 30 + 1))"
    and sk: "s = slotAt tz (ri_tables r) (ri_reservations r) ?turn p
                   (?S + (int (oH * 60 + oM) + 30 * int k) * 60000)"
    unfolding eq by auto
  let ?a = "int (oH * 60 + oM) + 30 * int k"
  have "?a \<le> int (cH * 60 + cM) - ?turn"
    using k by (rule slot_offset_bound)
  moreover have "int (cH * 60 + cM) < 1440" using trng by simp
  ultimately have "?a < 1440" using ok(2) by simp
  moreover have "0 \<le> ?a" by simp
  moreover have "validDateFields [y, m, d]"
    using rng by (simp add: validDateFields_def)
  ultimately show ?thesis
    using q d sk by blast
qed

lemma unavailable_slot_post:
  assumes s: "s \<in> set (calculateAvailability tz db rid date p)"
    and un: "\<not> sl_available s"
  shows "\<exists>t. requestedInstant tz date (sl_time s) = Instant t
           \<and> findAvailableTable db rid t p (resolveTurnTime (matchingTurnTimeRules db rid p)) = None"
proof -
  from slot_origin [OF s] obtain r y m d a where
    q: "availabilityQuery tz db rid date p = Some r" and d: "date = [y, m, d]"
    and v: "validDateFields [y, m, d]" and a: "0 \<le> a" "a < 1440"
    and sk: "s = slotAt tz (ri_tables r) (ri_reservations r) (resolveTurnTime (ri_turnTimeRules r)) p
                   (jsDate tz (int y) (int m - 1) (int d) 0 0 + a * 60000)"
    by blast
  let ?t = "jsDate tz (int y) (int m - 1) (int d) 0 0 + a * 60000"
  let ?turn = "resolveTurnTime (matchingTurnTimeRules db rid p)"
  note f = availabilityQuery_fields [OF q]
  have time: "sl_time s = clock a"
    unfolding sk sl_time_slotAt by (rule formatHHmm_minute [OF a])
  have req: "requestedInstant tz date (sl_time s) = Instant ?t"
    unfolding time d by (rule requestedInstant_clock [OF v a])
  have none: "findAvailableTableForSlot (restaurantTables db rid) (ri_reservations r) ?t (addMinutes ?t ?turn) p = None"
    using un unfolding sk sl_available_slotAt f(1) f(3) by simp
  have sub: "set (ri_reservations r) \<subseteq> set (activeReservations db rid)"
    unfolding f(4) activeReservations_def by auto
  have found: "find (\<lambda>r. rst_id r = rid) (db_restaurants db) \<noteq> None"
    using q by (auto simp: availabilityQuery_def split: option.splits)
  have "findAvailableTable db rid ?t p ?turn = None"
    using found findAvailableTableForSlot_None_mono [OF sub none]
    by (auto simp: findAvailableTable_def Let_def split: option.splits)
  with req show ?thesis by blast
qed


lemma postCheck_no_table_error:
  assumes "pb_reservationTime body = Instant t"
    and "findAvailableTable db (pb_restaurantId body) t (pb_partySize body)
           (resolveTurnTime (matchingTurnTimeRules db (pb_restaurantId body) (pb_partySize body))) = None"
    and "find (\<lambda>r. rst_id r = pb_restaurantId body) (db_restaurants db) \<noteq> None"
  shows "postCheck now db body =
           Inl (if pb_restaurantId body = [] \<or> pb_partySize body = 0 \<or> pb_userId body = []
                then MissingFields ((if pb_restaurantId body = [] then [''restaurantId''] else [])
                                    @ (if pb_partySize body = 0 then [''partySize''] else [])
                                    @ (if pb_userId body = [] then [''userId''] else []))
                else if pb_partySize body < 1 \<or> pb_partySize body > 20 then InvalidPartySize
                else if t < now then PastTime
                else NoAvailability)"
  using assms by (auto simp: postCheck_def Let_def split: option.splits)

text \<open>
  Claim C6, as the handler behaves. When \<open>calculateAvailability\<close> reports a slot unavailable,
  a \<open>POST\<close> for the same restaurant, the instant of that slot and the same party size, on
  the same stored data, persists nothing and answers with an error. The error is the first
  that applies, in the handler's order: missing fields (the restaurant id or the user id is
  absent, or the party size is 0), with the names of the fields that are missing; an invalid
  party size (outside 1 to 20); a time in the past (the instant is before the present); and
  otherwise, that is, whenever the request passes this validation, no availability.
\<close>

theorem C6_unavailable_slot_not_bookable:
  assumes s: "s \<in> set (calculateAvailability tz db rid date p)"
    and un: "\<not> sl_available s"
    and body: "pb_restaurantId body = rid" "pb_partySize body = p"
              "pb_reservationTime body = requestedInstant tz date (sl_time s)"
  shows "\<exists>t. pb_reservationTime body = Instant t
       \<and> POST now newId db body =
           (Inl (if rid = [] \<or> p = 0 \<or> pb_userId body = []
                 then MissingFields ((if rid = [] then [''restaurantId''] else [])
                                     @ (if p = 0 then [''partySize''] else [])
                                     @ (if pb_userId body = [] then [''userId''] else []))
                 else if p < 1 \<or> p > 20 then InvalidPartySize
                 else if t < now then PastTime
                 else NoAvailability), db)"
proof -
  from unavailable_slot_post [OF s un] obtain t where
    t: "requestedInstant tz date (sl_time s) = Instant t"
    and none: "findAvailableTable db rid t p (resolveTurnTime (matchingTurnTimeRules db rid p)) = None"
    by blast
  have bt: "pb_reservationTime body = Instant t"
    using body(3) t by simp
  have none': "findAvailableTable db (pb_restaurantId body) t (pb_partySize body)
           (resolveTurnTime (matchingTurnTimeRules db (pb_restaurantId body) (pb_partySize body))) = None"
    using none body by simp
  have found: "find (\<lambda>r. rst_id r = pb_restaurantId body) (db_restaurants db) \<noteq> None"
    using slot_origin [OF s] body(1) by (auto simp: availabilityQuery_def split: option.splits)
  have "POST now newId db body =
           (Inl (if rid = [] \<or> p = 0 \<or> pb_userId body = []
                 then MissingFields ((if rid = [] then [''restaurantId''] else [])
                                     @ (if p = 0 then [''partySize''] else [])
                                     @ (if pb_userId body = [] then [''userId''] else []))
                 else if p < 1 \<or> p > 20 then InvalidPartySize
                 else if t < now then PastTime
                 else NoAvailability), db)"
    unfolding POST_def postCheck_no_table_error [OF bt none' found, of now] body(1,2)
    by simp
  with bt show ?thesis by blast
qed

text \<open>
  The scenario with 19:00 booked (Monday 2024-01-15, UTC): the 19:00 slot is unavailable,
  and a second request for 19:00 and a party of 2 gets the no-availability error; the same
  request without a user id gets the missing-fields error.
\<close>

theorem C6_witness:
  "POST 0 ''x2'' (scenarioDb 1 [exReservation ''x1'' ''table-1'' 1705345200000 2 90 CONFIRMED])
        (exBody 1705345200000 2)
   = (Inl NoAvailability, scenarioDb 1 [exReservation ''x1'' ''table-1'' 1705345200000 2 90 CONFIRMED])
   \<and> POST 0 ''x2'' (scenarioDb 1 [exReservation ''x1'' ''table-1'' 1705345200000 2 90 CONFIRMED])
        ((exBody 1705345200000 2) \<lparr> pb_userId := [] \<rparr>)
   = (Inl (MissingFields [''userId'']),
      scenarioDb 1 [exReservation ''x1'' ''table-1'' 1705345200000 2 90 CONFIRMED])"
proof -
  let ?db = "scenarioDb 1 [exReservation ''x1'' ''table-1'' 1705345200000 2 90 CONFIRMED]"
  have dow: "getDay 0 [2024, 1, 15] = Some 1"
    by (simp add: getDay_def validDateFields_def daysFromCivil_def)
  have t19: "1705345200000 = jsDate 0 (int 2024) (int 1 - 1) (int 15) 19 0"
    by (simp add: jsDate_def daysFromCivil_def)
  have "(''19:00'', False) \<in> set (map (\<lambda>s. (sl_time s, sl_available s))
           (calculateAvailability 0 ?db ''r1'' [2024, 1, 15] 2))"
    by (subst scenario_after_booking [OF _ _ _ _ _ _ dow t19]) simp_all
  then obtain s where s: "s \<in> set (calculateAvailability 0 ?db ''r1'' [2024, 1, 15] 2)"
    and st: "sl_time s = ''19:00''" and un: "\<not> sl_available s"
    by auto
  have req: "requestedInstant 0 [2024, 1, 15] ''19:00'' = Instant 1705345200000"
    by (simp add: requestedInstant_def validDateFields_def parseClock_def digitVal_def
        jsDate_def daysFromCivil_def)
  have b: "pb_restaurantId (exBody 1705345200000 2) = ''r1''" "pb_partySize (exBody 1705345200000 2) = 2"
    "pb_reservationTime (exBody 1705345200000 2) = requestedInstant 0 [2024, 1, 15] (sl_time s)"
    using req by (simp_all add: exBody_def st)
  have c: "pb_restaurantId ((exBody 1705345200000 2) \<lparr> pb_userId := [] \<rparr>) = ''r1''"
    "pb_partySize ((exBody 1705345200000 2) \<lparr> pb_userId := [] \<rparr>) = 2"
    "pb_reservationTime ((exBody 1705345200000 2) \<lparr> pb_userId := [] \<rparr>)
     = requestedInstant 0 [2024, 1, 15] (sl_time s)"
    using req by (simp_all add: exBody_def st)
  show ?thesis
    using C6_unavailable_slot_not_bookable [OF s un b(1,2,3), of 0 "''x2''"]
      C6_unavailable_slot_not_bookable [OF s un c(1,2,3), of 0 "''x2''"]
    by (auto simp: exBody_def)
qed

text \<open>
  The same unavailable 19:00 slot, requested at 19:30 of that day: the handler answers that
  the time is in the past, not that there is no availability.
\<close>

theorem C6_counterexample:
  "(''19:00'', False) \<in> set (map (\<lambda>s. (sl_time s, sl_available s))
       (calculateAvailability 0 (scenarioDb 1 [exReservation ''x1'' ''table-1'' 1705345200000 2 90 CONFIRMED])
          ''r1'' [2024, 1, 15] 2))
   \<and> requestedInstant 0 [2024, 1, 15] ''19:00'' = Instant 1705345200000
   \<and> POST 1705347000000 ''x2'' (scenarioDb 1 [exReservation ''x1'' ''table-1'' 1705345200000 2 90 CONFIRMED])
        (exBody 1705345200000 2)
     = (Inl PastTime, scenarioDb 1 [exReservation ''x1'' ''table-1'' 1705345200000 2 90 CONFIRMED])"
proof (intro conjI)
  have dow: "getDay 0 [2024, 1, 15] = Some 1"
    by (simp add: getDay_def validDateFields_def daysFromCivil_def)
  have t19: "1705345200000 = jsDate 0 (int 2024) (int 1 - 1) (int 15) 19 0"
    by (simp add: jsDate_def daysFromCivil_def)
  show "(''19:00'', False) \<in> set (map (\<lambda>s. (sl_time s, sl_available s))
       (calculateAvailability 0 (scenarioDb 1 [exReservation ''x1'' ''table-1'' 1705345200000 2 90 CONFIRMED])
          ''r1'' [2024, 1, 15] 2))"
    by (subst scenario_after_booking [OF _ _ _ _ _ _ dow t19]) simp_all
  show "requestedInstant 0 [2024, 1, 15] ''19:00'' = Instant 1705345200000"
    by (simp add: requestedInstant_def validDateFields_def parseClock_def digitVal_def
        jsDate_def daysFromCivil_def)
  show "POST 1705347000000 ''x2'' (scenarioDb 1 [exReservation ''x1'' ''table-1'' 1705345200000 2 90 CONFIRMED])
        (exBody 1705345200000 2)
     = (Inl PastTime, scenarioDb 1 [exReservation ''x1'' ''table-1'' 1705345200000 2 90 CONFIRMED])"
    by (simp add: POST_def postCheck_def exBody_def Let_def)
qed

section \<open>What a successful create stores\<close>

lemma POST_success:
  assumes "POST now newId db body = (Inr r, db')"
  shows "db' = db \<lparr> db_reservations := db_reservations db @ [r] \<rparr>"
    and "res_id r = newId"
    and "res_restaurantId r = pb_restaurantId body"
    and "res_partySize r = pb_partySize body"
    and "activeStatus (res_status r)"
    and "pb_reservationTime body = Instant (res_reservationTime r)"
    and "res_turnTimeUsed r = resolveTurnTime (matchingTurnTimeRules db (pb_restaurantId body) (pb_partySize body))"
    and "res_tableId r = findAvailableTable db (pb_restaurantId body) (res_reservationTime r)
                           (pb_partySize body) (res_turnTimeUsed r)"
    and "find (\<lambda>x. rst_id x = pb_restaurantId body) (db_restaurants db) \<noteq> None"
    and "newId \<notin> set (map res_id (db_reservations db))"
  using assms
  by (auto simp: POST_def postCheck_def postCreate_def Let_def activeStatus_def
      split: sum.splits if_splits time_arg.splits option.splits)

lemma findAvailableTable_found:
  assumes "find (\<lambda>x. rst_id x = rid) (db_restaurants db) \<noteq> None"
  shows "findAvailableTable db rid t p turn
         = findAvailableTableForSlot (restaurantTables db rid) (activeReservations db rid) t
             (addMinutes t turn) p"
  using assms by (auto simp: findAvailableTable_def Let_def split: option.splits)

lemma activeReservations_append:
  assumes "res_restaurantId r = rid" "activeStatus (res_status r)"
  shows "activeReservations (db \<lparr> db_reservations := db_reservations db @ [r] \<rparr>) rid
         = activeReservations db rid @ [r]"
  using assms by (simp add: activeReservations_def)

lemma isTableAvailable_other_table:
  assumes "res_tableId r \<noteq> Some (t_id tbl)"
  shows "isTableAvailable tbl (rs @ [r]) s e = isTableAvailable tbl rs s e"
  using assms by (simp add: isTableAvailable_def conflictsWith_def)

lemma find_SomeD: "find P xs = Some x \<Longrightarrow> P x \<and> x \<in> set xs"
  by (induction xs) (auto split: if_splits)

lemma join_branch:
  assumes "idealTableLoop tables rs s e p = None" "largerTableLoop tables rs s e p = None"
    and "find (\<lambda>pr. pairFit p pr \<and> isTableAvailable (fst pr) rs s e \<and> isTableAvailable (snd pr) rs s e)
              (orderedPairs (filter t_isJoinable tables)) = Some (t1, t2)"
  shows "findAvailableTableForSlot tables rs s e p = Some (t_id t1)"
    and "isTableAvailable t1 rs s e" and "isTableAvailable t2 rs s e" and "pairFit p (t1, t2)"
  using assms find_SomeD [OF assms(3)]
  by (auto simp: findAvailableTableForSlot_def joinOuterLoop_find)

lemma orderedPairs_subset: "pr \<in> set (orderedPairs xs) \<Longrightarrow> fst pr \<in> set xs \<and> snd pr \<in> set xs"
  by (induction xs) auto

lemma largerTableLoop_finds:
  assumes "tbl \<in> set tables" "q \<le> t_capacityMax tbl" "isTableAvailable tbl rs s e"
  shows "findAvailableTableForSlot tables rs s e q \<noteq> None"
proof
  assume "findAvailableTableForSlot tables rs s e q = None"
  then have "\<forall>x \<in> set tables. q \<le> t_capacityMax x \<longrightarrow> \<not> isTableAvailable x rs s e"
    unfolding findAvailableTableForSlot_None_iff by blast
  with assms show False by blast
qed

text \<open>
  Claim C10. When the party is seated on the pair \<open>(t1, t2)\<close> (no single table was found and
  \<open>(t1, t2)\<close> is the first fitting pair of free joinable tables), the stored reservation
  names \<open>t1\<close> only. The conflict check compares stored table ids, so after the create
  \<open>t2\<close> is still available for the very interval just booked, its availability for any
  interval is what it was before, and a further create for that interval with a party that
  \<open>t2\<close> can hold still finds a table.
\<close>

theorem C10_join_partner_stays_free:
  assumes post: "POST now newId db body = (Inr r, db')"
    and rid: "rid = pb_restaurantId body" and p: "p = pb_partySize body"
    and t: "t = res_reservationTime r" and e: "e = addMinutes t (res_turnTimeUsed r)"
    and ideal: "idealTableLoop (restaurantTables db rid) (activeReservations db rid) t e p = None"
    and larger: "largerTableLoop (restaurantTables db rid) (activeReservations db rid) t e p = None"
    and pair: "find (\<lambda>pr. pairFit p pr \<and> isTableAvailable (fst pr) (activeReservations db rid) t e
                              \<and> isTableAvailable (snd pr) (activeReservations db rid) t e)
                    (orderedPairs (filter t_isJoinable (restaurantTables db rid))) = Some (t1, t2)"
    and ids: "t_id t2 \<noteq> t_id t1"
  shows "res_tableId r = Some (t_id t1)
       \<and> db_reservations db' = db_reservations db @ [r]
       \<and> isTableAvailable t2 (activeReservations db' rid) t e
       \<and> isTableAvailable t2 (activeReservations db' rid) s' e'
           = isTableAvailable t2 (activeReservations db rid) s' e'
       \<and> (q \<le> t_capacityMax t2
            \<longrightarrow> findAvailableTable db' rid t q (res_turnTimeUsed r) \<noteq> None)"
proof -
  note ps = POST_success [OF post]
  have found: "find (\<lambda>x. rst_id x = rid) (db_restaurants db) \<noteq> None"
    using ps(9) rid by simp
  have tid: "res_tableId r = Some (t_id t1)"
    using ps(8) join_branch(1) [OF ideal larger pair]
    by (simp add: findAvailableTable_found [OF found] rid [symmetric] p [symmetric] t [symmetric] e [symmetric])
  have act: "activeReservations db' rid = activeReservations db rid @ [r]"
    unfolding ps(1) using ps(3) ps(5) rid by (intro activeReservations_append) simp_all
  have other: "res_tableId r \<noteq> Some (t_id t2)"
    using tid ids by simp
  have same: "isTableAvailable t2 (activeReservations db' rid) a b
              = isTableAvailable t2 (activeReservations db rid) a b" for a b
    unfolding act by (rule isTableAvailable_other_table [OF other])
  have free: "isTableAvailable t2 (activeReservations db' rid) t e"
    unfolding same by (rule join_branch(3) [OF ideal larger pair])
  have mem: "t2 \<in> set (restaurantTables db rid)"
    using find_SomeD [OF pair] orderedPairs_subset [of "(t1, t2)" "filter t_isJoinable (restaurantTables db rid)"]
    by simp
  have tabs: "restaurantTables db' rid = restaurantTables db rid"
    unfolding ps(1) by (simp add: restaurantTables_def)
  have found': "find (\<lambda>x. rst_id x = rid) (db_restaurants db') \<noteq> None"
    using found unfolding ps(1) by simp
  have again: "findAvailableTable db' rid t q (res_turnTimeUsed r) \<noteq> None" if "q \<le> t_capacityMax t2"
    unfolding findAvailableTable_found [OF found'] tabs e [symmetric]
    using mem that free by (rule largerTableLoop_finds)
  show ?thesis
    using tid ps(1) free same again by simp
qed

text \<open>
  Monday 2024-01-15, UTC, 18:00 (the instant 1705341600000). A party of 11 is seated on the
  pair \<open>(P3, P4)\<close> and stored on \<open>P3\<close>; \<open>P4\<close> still counts as free, and a party of 5 for
  the same time is then stored on \<open>P4\<close>.
\<close>

theorem C10_witness:
  "POST 0 ''x1'' (joinDb 1 []) (exBody 1705341600000 11)
   = (Inr (exReservation ''x1'' ''P3'' 1705341600000 11 120 CONFIRMED),
      joinDb 1 [exReservation ''x1'' ''P3'' 1705341600000 11 120 CONFIRMED])
   \<and> isTableAvailable (exTable ''P4'' 4 6 True)
       (activeReservations (joinDb 1 [exReservation ''x1'' ''P3'' 1705341600000 11 120 CONFIRMED]) ''r1'')
       1705341600000 1705348800000
   \<and> POST 0 ''x2'' (joinDb 1 [exReservation ''x1'' ''P3'' 1705341600000 11 120 CONFIRMED])
        (exBody 1705341600000 5)
   = (Inr (exReservation ''x2'' ''P4'' 1705341600000 5 120 CONFIRMED),
      joinDb 1 [exReservation ''x1'' ''P3'' 1705341600000 11 120 CONFIRMED,
                exReservation ''x2'' ''P4'' 1705341600000 5 120 CONFIRMED])"
proof -
  let ?r1 = "exReservation ''x1'' ''P3'' 1705341600000 11 120 CONFIRMED"
  let ?P3 = "exTable ''P3'' 4 6 True"
  let ?P4 = "exTable ''P4'' 4 6 True"
  note defs = POST_def postCheck_def postCreate_def joinDb_def exDb_def exBody_def exRule_def
      exTable_def exReservation_def matchingTurnTimeRules_def resolveTurnTime_def findAvailableTable_def
      restaurantTables_def activeReservations_def findAvailableTableForSlot_def isTableAvailable_def
      conflictsWith_def addMinutes_def isBefore_def isAfter_def activeStatus_def pairFit_def Let_def
  have p1: "POST 0 ''x1'' (joinDb 1 []) (exBody 1705341600000 11) = (Inr ?r1, joinDb 1 [?r1])"
    by (simp add: defs)
  have p2: "POST 0 ''x2'' (joinDb 1 [?r1]) (exBody 1705341600000 5)
            = (Inr (exReservation ''x2'' ''P4'' 1705341600000 5 120 CONFIRMED),
               joinDb 1 [?r1, exReservation ''x2'' ''P4'' 1705341600000 5 120 CONFIRMED])"
    by (simp add: defs)
  have tabs: "restaurantTables (joinDb 1 []) ''r1'' = [?P3, ?P4]"
    and act: "activeReservations (joinDb 1 []) ''r1'' = []"
    by (simp_all add: restaurantTables_def activeReservations_def joinDb_def exDb_def exTable_def)
  have e: "1705348800000 = addMinutes 1705341600000 (res_turnTimeUsed ?r1)"
    and t: "1705341600000 = res_reservationTime ?r1"
    by (simp_all add: addMinutes_def exReservation_def)
  have free: "isTableAvailable ?P4 (activeReservations (joinDb 1 [?r1]) ''r1'') 1705341600000 1705348800000"
    using C10_join_partner_stays_free [OF p1 _ _ t e, of "''r1''" 11 ?P3 ?P4]
    by (simp add: tabs act exBody_def isTableAvailable_def pairFit_def exTable_def)
  from p1 free p2 show ?thesis by simp
qed

section \<open>Concurrent creates and Invariant I1\<close>

lemma findAvailableTableForSlot_SomeD:
  assumes "findAvailableTableForSlot tables rs s e p = Some tid"
  shows "\<exists>tbl \<in> set tables. t_id tbl = tid \<and> isTableAvailable tbl rs s e"
proof -
  let ?P1 = "\<lambda>tbl. tightFit p tbl \<and> isTableAvailable tbl rs s e"
  let ?P2 = "\<lambda>tbl. p \<le> t_capacityMax tbl \<and> isTableAvailable tbl rs s e"
  let ?P3 = "\<lambda>pr. pairFit p pr \<and> isTableAvailable (fst pr) rs s e \<and> isTableAvailable (snd pr) rs s e"
  consider (a) tbl where "find ?P1 tables = Some tbl" "tid = t_id tbl"
    | (b) tbl where "find ?P2 tables = Some tbl" "tid = t_id tbl"
    | (c) pr where "find ?P3 (orderedPairs (filter t_isJoinable tables)) = Some pr" "tid = t_id (fst pr)"
    using assms
    by (auto simp: findAvailableTableForSlot_def idealTableLoop_find largerTableLoop_find
        joinOuterLoop_find Let_def split: option.splits)
  then show ?thesis
  proof cases
    case a
    then show ?thesis using find_SomeD [OF a(1)] by auto
  next
    case b
    then show ?thesis using find_SomeD [OF b(1)] by auto
  next
    case c
    from find_SomeD [OF c(1)] orderedPairs_subset [of pr "filter t_isJoinable tables"]
    have "fst pr \<in> set tables" "isTableAvailable (fst pr) rs s e" by auto
    with c(2) show ?thesis by auto
  qed
qed

lemma set_orderedPairs_snoc:
  "set (orderedPairs (xs @ [y])) = set (orderedPairs xs) \<union> (\<lambda>x. (x, y)) ` set xs"
  by (induction xs) auto

lemma noDoubleBooking_snoc:
  "noDoubleBooking (rs @ [r]) \<longleftrightarrow> noDoubleBooking rs \<and> (\<forall>x \<in> set rs. \<not> doubleBooked (x, r))"
  by (auto simp: noDoubleBooking_def filter_empty_conv set_orderedPairs_snoc)

text \<open>
  A create that runs alone, its check and its write together, keeps Invariant I1, as long
  as every stored reservation's table belongs to the reservation's restaurant.
\<close>

lemma POST_keeps_noDoubleBooking:
  assumes inv: "noDoubleBooking (db_reservations db)"
    and own: "\<forall>x \<in> set (db_reservations db). \<forall>tbl \<in> set (db_tables db).
                res_tableId x = Some (t_id tbl) \<longrightarrow> res_restaurantId x = t_restaurantId tbl"
    and post: "POST now newId db body = (res, db')"
  shows "noDoubleBooking (db_reservations db')"
proof (cases res)
  case (Inl err)
  with post have "db' = db"
    by (auto simp: POST_def postCreate_def Let_def split: sum.splits if_splits)
  with inv show ?thesis by simp
next
  case (Inr r)
  with post have post': "POST now newId db body = (Inr r, db')" by simp
  note ps = POST_success [OF post']
  let ?rid = "pb_restaurantId body"
  let ?t = "res_reservationTime r"
  let ?e = "addMinutes ?t (res_turnTimeUsed r)"
  have "findAvailableTableForSlot (restaurantTables db ?rid) (activeReservations db ?rid) ?t ?e
          (pb_partySize body) = res_tableId r"
    using ps(8) by (simp add: findAvailableTable_found [OF ps(9)])
  moreover obtain tid where tid: "res_tableId r = Some tid"
    using post' by (auto simp: POST_def postCheck_def postCreate_def Let_def
        split: sum.splits if_splits time_arg.splits option.splits)
  ultimately obtain tbl where tbl: "tbl \<in> set (restaurantTables db ?rid)" "t_id tbl = tid"
    and free: "isTableAvailable tbl (activeReservations db ?rid) ?t ?e"
    using findAvailableTableForSlot_SomeD by metis
  have tbl': "tbl \<in> set (db_tables db)" "t_restaurantId tbl = ?rid"
    using tbl(1) by (auto simp: restaurantTables_def)
  have "\<not> doubleBooked (x, r)" if x: "x \<in> set (db_reservations db)" for x
  proof
    assume d: "doubleBooked (x, r)"
    then have xa: "activeStatus (res_status x)" and xt: "res_tableId x = Some (t_id tbl)"
      and ov: "res_reservationTime x < reservationEnd r" "?t < reservationEnd x"
      using tid tbl(2) by (auto simp: doubleBooked_def)
    have "res_restaurantId x = ?rid"
      using own x tbl' xt by fastforce
    with x xa have "x \<in> set (activeReservations db ?rid)"
      by (simp add: activeReservations_def)
    with free have "\<not> conflictsWith tbl ?t ?e x"
      by (simp add: isTableAvailable_iff)
    with xt ov show False
      by (simp add: conflictsWith_iff reservationEnd_def addMinutes_def)
  qed
  with inv show ?thesis
    unfolding ps(1) by (simp add: noDoubleBooking_snoc)
qed

text \<open>
  Claim C1 on the handler as written. Two requests for the one table at 19:00 (Monday
  2024-01-15, UTC), each advanced by the schedule: when both checks run before either
  write, both requests succeed and the stored reservations overlap on \<open>table-1\<close>; when the
  first request finishes before the second starts, the second gets no availability.
\<close>

theorem C1_interleaved_creates_double_book:
  "runSchedule 0 [''x1'', ''x2''] [0, 1, 0, 1]
     (scenarioDb 1 [], [NotChecked (exBody 1705345200000 2), NotChecked (exBody 1705345200000 2)])
   = (scenarioDb 1 [exReservation ''x1'' ''table-1'' 1705345200000 2 90 CONFIRMED,
                    exReservation ''x2'' ''table-1'' 1705345200000 2 90 CONFIRMED],
      [Finished (Inr (exReservation ''x1'' ''table-1'' 1705345200000 2 90 CONFIRMED)),
       Finished (Inr (exReservation ''x2'' ''table-1'' 1705345200000 2 90 CONFIRMED))])
   \<and> \<not> noDoubleBooking [exReservation ''x1'' ''table-1'' 1705345200000 2 90 CONFIRMED,
                          exReservation ''x2'' ''table-1'' 1705345200000 2 90 CONFIRMED]
   \<and> runSchedule 0 [''x1'', ''x2''] [0, 0, 1, 1]
     (scenarioDb 1 [], [NotChecked (exBody 1705345200000 2), NotChecked (exBody 1705345200000 2)])
   = (scenarioDb 1 [exReservation ''x1'' ''table-1'' 1705345200000 2 90 CONFIRMED],
      [Finished (Inr (exReservation ''x1'' ''table-1'' 1705345200000 2 90 CONFIRMED)),
       Finished (Inl NoAvailability)])"
proof -
  let ?b = "exBody 1705345200000 2"
  let ?r1 = "exReservation ''x1'' ''table-1'' 1705345200000 2 90 CONFIRMED"
  let ?r2 = "exReservation ''x2'' ''table-1'' 1705345200000 2 90 CONFIRMED"
  let ?chk = "\<lparr> ck_reservationDateTime = 1705345200000, ck_turnTime = 90, ck_tableId = ''table-1'' \<rparr>"
  note defs = postCheck_def postCreate_def scenarioDb_def exDb_def exBody_def exRule_def
      exTable_def exReservation_def matchingTurnTimeRules_def resolveTurnTime_def findAvailableTable_def
      restaurantTables_def activeReservations_def findAvailableTableForSlot_def isTableAvailable_def
      conflictsWith_def addMinutes_def isBefore_def isAfter_def activeStatus_def Let_def
  have c0: "postCheck 0 (scenarioDb 1 []) ?b = Inr ?chk"
    by (simp add: defs)
  have c1: "postCheck 0 (scenarioDb 1 [?r1]) ?b = Inl NoAvailability"
    by (simp add: defs)
  have w0: "postCreate ''x1'' (scenarioDb 1 []) ?b ?chk = (Inr ?r1, scenarioDb 1 [?r1])"
    by (simp add: defs)
  have w1: "postCreate ''x2'' (scenarioDb 1 [?r1]) ?b ?chk = (Inr ?r2, scenarioDb 1 [?r1, ?r2])"
    by (simp add: defs)
  have bad: "\<not> noDoubleBooking [?r1, ?r2]"
    by (simp add: noDoubleBooking_def doubleBooked_def reservationEnd_def addMinutes_def
        exReservation_def activeStatus_def)
  have racy: "runSchedule 0 [''x1'', ''x2''] [0, 1, 0, 1] (scenarioDb 1 [], [NotChecked ?b, NotChecked ?b])
        = (scenarioDb 1 [?r1, ?r2], [Finished (Inr ?r1), Finished (Inr ?r2)])"
    by (simp add: stepCall_def c0 w0 w1)
  have serial: "runSchedule 0 [''x1'', ''x2''] [0, 0, 1, 1] (scenarioDb 1 [], [NotChecked ?b, NotChecked ?b])
        = (scenarioDb 1 [?r1], [Finished (Inr ?r1), Finished (Inl NoAvailability)])"
    by (simp add: stepCall_def c0 c1 w0)
  from racy bad serial show ?thesis by simp
qed

section \<open>Cancellation: the terminal-state guard and the policy decision\<close>

lemma PATCH_already_cancelled:
  assumes "find (\<lambda>r. res_id r = ident) (db_reservations db) = Some existing"
    and "res_status existing = CANCELLED"
  shows "PATCH now db ident ''cancel'' = (Inl AlreadyCancelled, db)"
  using assms by (simp add: PATCH_def)

lemma PATCH_already_completed:
  assumes "find (\<lambda>r. res_id r = ident) (db_reservations db) = Some existing"
    and "res_status existing = COMPLETED"
  shows "PATCH now db ident ''cancel'' = (Inl AlreadyCompleted, db)"
  using assms by (simp add: PATCH_def)

text \<open>
  Claim C3. The handler guards CANCELLED and COMPLETED (the two lemmas above) and has no
  guard for NO_SHOW: with no cancellation policy in the way, cancelling a NO_SHOW
  reservation succeeds and stores it as CANCELLED.
\<close>

theorem C3_no_show_is_cancelled:
  "PATCH now (exDb [] [] [] [exReservation ''x1'' ''t1'' t 2 90 NO_SHOW] []) ''x1'' ''cancel''
   = (Inr (exReservation ''x1'' ''t1'' t 2 90 CANCELLED),
      exDb [] [] [] [exReservation ''x1'' ''t1'' t 2 90 CANCELLED] [])"
  by (simp add: PATCH_def exDb_def exReservation_def cancelUpdate_def)

text \<open>
  Claim C7, as the handler decides it. For a reservation that is neither CANCELLED nor
  COMPLETED: with no policy the cancellation is allowed; with a policy that forbids online
  cancellation it is refused; otherwise, when \<open>hoursBeforeNoFee\<close> is set to a value other
  than 0 and the time left, in milliseconds, is less than that many hours, it is refused
  and the refusal carries the policy with its fee terms; otherwise it is allowed and the
  reservation is stored as CANCELLED.
\<close>

theorem C7_policy_decision:
  assumes found: "find (\<lambda>r. res_id r = ident) (db_reservations db) = Some existing"
    and live: "res_status existing \<noteq> CANCELLED" "res_status existing \<noteq> COMPLETED"
    and pol: "find (\<lambda>cp. cp_restaurantId cp = res_restaurantId existing) (db_cancellationPolicies db) = policy"
  shows "PATCH now db ident ''cancel'' =
     (case policy of
        None \<Rightarrow> (Inr (existing \<lparr> res_status := CANCELLED \<rparr>), cancelUpdate db ident)
      | Some p \<Rightarrow>
          if \<not> cp_allowOnlineCancellation p
          then (Inl (OnlineCancellationNotAllowed
                  (map_option rst_phone (find (\<lambda>r. rst_id r = res_restaurantId existing) (db_restaurants db)))), db)
          else
            (case cp_hoursBeforeNoFee p of
               None \<Rightarrow> (Inr (existing \<lparr> res_status := CANCELLED \<rparr>), cancelUpdate db ident)
             | Some h \<Rightarrow>
                 if h \<noteq> 0 \<and> res_reservationTime existing - now < h * 3600000
                 then (Inl (TooLateToCancel p), db)
                 else (Inr (existing \<lparr> res_status := CANCELLED \<rparr>), cancelUpdate db ident)))"
proof -
  have cmp: "\<And>h. hoursUntilReservation now existing < real_of_int h
                 \<longleftrightarrow> res_reservationTime existing - now < h * 3600000"
  proof -
    fix h :: int
    have "hoursUntilReservation now existing < real_of_int h
          \<longleftrightarrow> real_of_int (res_reservationTime existing - now) < real_of_int h * 3600000"
      by (simp add: hoursUntilReservation_def pos_divide_less_eq)
    also have "\<dots> \<longleftrightarrow> real_of_int (res_reservationTime existing - now) < real_of_int (h * 3600000)"
      by simp
    also have "\<dots> \<longleftrightarrow> res_reservationTime existing - now < h * 3600000"
      by (rule of_int_less_iff)
    finally show "hoursUntilReservation now existing < real_of_int h
                 \<longleftrightarrow> res_reservationTime existing - now < h * 3600000" .
  qed
  show ?thesis
    using found live pol
    by (auto simp: PATCH_def cmp split: option.splits)
qed

text \<open>
  The boundary with \<open>hoursBeforeNoFee = 24\<close>: a reservation exactly 24 hours away is
  cancelled, one 23 hours 59 minutes away is refused with the policy attached; and a policy
  that forbids online cancellation refuses.
\<close>

theorem C7_witness:
  "PATCH 0 (exDb [] [] [] [exReservation ''x1'' ''t1'' 86400000 2 90 CONFIRMED] [exPolicy (Some 24) True])
         ''x1'' ''cancel''
   = (Inr (exReservation ''x1'' ''t1'' 86400000 2 90 CANCELLED),
      exDb [] [] [] [exReservation ''x1'' ''t1'' 86400000 2 90 CANCELLED] [exPolicy (Some 24) True])
   \<and> PATCH 60000 (exDb [] [] [] [exReservation ''x1'' ''t1'' 86400000 2 90 CONFIRMED] [exPolicy (Some 24) True])
         ''x1'' ''cancel''
   = (Inl (TooLateToCancel (exPolicy (Some 24) True)),
      exDb [] [] [] [exReservation ''x1'' ''t1'' 86400000 2 90 CONFIRMED] [exPolicy (Some 24) True])
   \<and> fst (PATCH 0 (exDb [] [] [] [exReservation ''x1'' ''t1'' 86400000 2 90 CONFIRMED] [exPolicy (Some 24) False])
         ''x1'' ''cancel'')
   = Inl (OnlineCancellationNotAllowed (Some ''555-0123''))"
proof -
  let ?r = "exReservation ''x1'' ''t1'' 86400000 2 90 CONFIRMED"
  let ?db = "\<lambda>pol. exDb [] [] [] [?r] [pol]"
  have f: "\<And>pol. find (\<lambda>r. res_id r = ''x1'') (db_reservations (?db pol)) = Some ?r"
    by (simp add: exDb_def exReservation_def)
  have l: "res_status ?r \<noteq> CANCELLED" "res_status ?r \<noteq> COMPLETED"
    by (simp_all add: exReservation_def)
  have p: "\<And>pol. cp_restaurantId pol = ''r1'' \<Longrightarrow>
     find (\<lambda>cp. cp_restaurantId cp = res_restaurantId ?r) (db_cancellationPolicies (?db pol)) = Some pol"
    by (simp add: exDb_def exReservation_def)
  have p1: "find (\<lambda>cp. cp_restaurantId cp = res_restaurantId ?r)
              (db_cancellationPolicies (?db (exPolicy (Some 24) True))) = Some (exPolicy (Some 24) True)"
    by (rule p) (simp add: exPolicy_def)
  have p2: "find (\<lambda>cp. cp_restaurantId cp = res_restaurantId ?r)
              (db_cancellationPolicies (?db (exPolicy (Some 24) False))) = Some (exPolicy (Some 24) False)"
    by (rule p) (simp add: exPolicy_def)
  show ?thesis
    using C7_policy_decision [OF f l p1, of 0] C7_policy_decision [OF f l p1, of 60000]
      C7_policy_decision [OF f l p2, of 0]
    by (simp add: exPolicy_def exReservation_def exDb_def cancelUpdate_def)
qed

text \<open>
  With \<open>hoursBeforeNoFee = 0\<close> the handler skips the time test: a reservation that began an
  hour ago has less than 0 hours left and is cancelled all the same.
\<close>

theorem C7_counterexample:
  "cp_hoursBeforeNoFee (exPolicy (Some 0) True) = Some 0
   \<and> cp_allowOnlineCancellation (exPolicy (Some 0) True)
   \<and> hoursUntilReservation 90000000 (exReservation ''x1'' ''t1'' 86400000 2 90 CONFIRMED) < 0
   \<and> PATCH 90000000 (exDb [] [] [] [exReservation ''x1'' ''t1'' 86400000 2 90 CONFIRMED] [exPolicy (Some 0) True])
         ''x1'' ''cancel''
     = (Inr (exReservation ''x1'' ''t1'' 86400000 2 90 CANCELLED),
        exDb [] [] [] [exReservation ''x1'' ''t1'' 86400000 2 90 CANCELLED] [exPolicy (Some 0) True])"
  by (simp add: PATCH_def exDb_def exReservation_def exPolicy_def cancelUpdate_def hoursUntilReservation_def)


end
